theory Spec2Isabelle
  imports Main "HOL-Library.Word" "HOL-Library.Sublist"
begin

section \<open>The world the program runs in\<close>

text \<open>
  \<^verbatim>\<open>chunksToVideo.py\<close> works on files, on the clock and through an external
  \<^verbatim>\<open>ffmpeg\<close> process. All three are explicit here. A path is the tuple of its
  parts, as \<^verbatim>\<open>pathlib\<close>'s \<^verbatim>\<open>Path.parts\<close> has it (an absolute path starts with the
  part \<^verbatim>\<open>/\<close>); the file system maps a path to a regular file with its bytes or to a
  directory. Console output (\<^verbatim>\<open>print\<close>) is left out, except where the question is
  which exceptions leave \<^verbatim>\<open>concatenate_raw_chunks\<close>.
\<close>

type_synonym byte = "8 word"

type_synonym path = "string list"

datatype node = File "byte list" | Dir

type_synonym filesystem = "path \<Rightarrow> node option"

text \<open>The exceptions of the Python run time that the operations below raise.\<close>

datatype exn =
    FileNotFoundError
  | FileExistsError
  | IsADirectoryError
  | NotADirectoryError
  | PermissionError
  | ValueError

record datetime =
  year :: nat
  month :: nat
  day :: nat
  hour :: nat
  minute :: nat
  second :: nat

record world =
  files :: filesystem
  now :: datetime

subsection \<open>Strings and paths\<close>

definition digit_char :: "nat \<Rightarrow> char" where
  "digit_char d = char_of (48 + d)"

text \<open>\<^verbatim>\<open>str(i)\<close> for a non-negative integer: its decimal digits.\<close>

fun str_nat :: "nat \<Rightarrow> string" where
  "str_nat n = (if n < 10 then [digit_char n] else str_nat (n div 10) @ [digit_char (n mod 10)])"

declare str_nat.simps [simp del]

text \<open>\<^verbatim>\<open>p / name\<close> for a name of one part, which is all the program joins.\<close>

definition joinpath :: "path \<Rightarrow> string \<Rightarrow> path" where
  "joinpath p nm = p @ [nm]"

fun join_sep :: "string list \<Rightarrow> string" where
  "join_sep [] = []"
| "join_sep [x] = x"
| "join_sep (x # y # ys) = x @ ''/'' @ join_sep (y # ys)"

text \<open>\<^verbatim>\<open>str(p)\<close>.\<close>

definition str_path :: "path \<Rightarrow> string" where
  "str_path p =
     (if p = [] then ''.''
      else if hd p = ''/'' then ''/'' @ join_sep (tl p)
      else join_sep p)"

text \<open>\<^verbatim>\<open>p.parent\<close> and \<^verbatim>\<open>p.name\<close>: the root and the empty path are their own parents
  and have the empty name.\<close>

definition parent :: "path \<Rightarrow> path" where
  "parent p = (if p = [''/''] then p else butlast p)"

definition name_of :: "path \<Rightarrow> string" where
  "name_of p = (if p = [] \<or> p = [''/''] then [] else last p)"

text \<open>\<^verbatim>\<open>p.suffix\<close>: the name from its last dot on, when that dot is neither the first nor
  the last character of the name.\<close>

definition suffix_of :: "string \<Rightarrow> string" where
  "suffix_of nm =
     (let r = takeWhile (\<lambda>c. c \<noteq> CHR ''.'') (rev nm)
      in if CHR ''.'' \<in> set nm \<and> r \<noteq> [] \<and> Suc (length r) < length nm
         then CHR ''.'' # rev r else [])"

text \<open>\<^verbatim>\<open>p.with_suffix(suffix)\<close> raises \<^verbatim>\<open>ValueError\<close> on an invalid suffix and on a path
  with an empty name.\<close>

definition with_suffix :: "path \<Rightarrow> string \<Rightarrow> exn + path" where
  "with_suffix p suf =
     (if CHR ''/'' \<in> set suf \<or> (suf \<noteq> [] \<and> hd suf \<noteq> CHR ''.'') \<or> suf = ''.''
      then Inl ValueError
      else if name_of p = [] then Inl ValueError
      else let nm = name_of p; old = suffix_of nm
           in Inr (butlast p @ [take (length nm - length old) nm @ suf]))"

subsection \<open>File operations\<close>

definition path_exists :: "filesystem \<Rightarrow> path \<Rightarrow> bool" where
  "path_exists fs p = (fs p \<noteq> None)"

definition is_dir :: "filesystem \<Rightarrow> path \<Rightarrow> bool" where
  "is_dir fs p = (fs p = Some Dir)"

text \<open>\<^verbatim>\<open>open(p, 'rb').read()\<close>.\<close>

definition read_bytes :: "filesystem \<Rightarrow> path \<Rightarrow> exn + byte list" where
  "read_bytes fs p =
     (case fs p of
        None \<Rightarrow> Inl FileNotFoundError
      | Some Dir \<Rightarrow> Inl IsADirectoryError
      | Some (File b) \<Rightarrow> Inr b)"

text \<open>\<^verbatim>\<open>open(p, 'wb')\<close>: creates the file or truncates it.\<close>

definition open_wb :: "filesystem \<Rightarrow> path \<Rightarrow> exn + filesystem" where
  "open_wb fs p =
     (case fs p of
        Some Dir \<Rightarrow> Inl IsADirectoryError
      | Some (File b) \<Rightarrow> Inr (fs(p \<mapsto> File []))
      | None \<Rightarrow>
          (case fs (parent p) of
             Some Dir \<Rightarrow> Inr (fs(p \<mapsto> File []))
           | Some (File b) \<Rightarrow> Inl NotADirectoryError
           | None \<Rightarrow> Inl FileNotFoundError))"

text \<open>\<^verbatim>\<open>outfile.write(b)\<close> on the open file at \<open>p\<close>. The bytes are taken to reach the
  file at once; Python may hold them in a buffer until the file is closed, which shows
  only when a fragment being read is the file being written.\<close>

definition append_bytes :: "filesystem \<Rightarrow> path \<Rightarrow> byte list \<Rightarrow> filesystem" where
  "append_bytes fs p b =
     (case fs p of Some (File old) \<Rightarrow> fs(p \<mapsto> File (old @ b)) | _ \<Rightarrow> fs)"

text \<open>\<^verbatim>\<open>p.unlink()\<close> in a directory that permits the removal; \<open>unlink_in\<close> below
  is the operation when the removal may be denied.\<close>

definition unlink :: "filesystem \<Rightarrow> path \<Rightarrow> exn + filesystem" where
  "unlink fs p =
     (case fs p of
        None \<Rightarrow> Inl FileNotFoundError
      | Some Dir \<Rightarrow> Inl IsADirectoryError
      | Some (File b) \<Rightarrow> Inr (fs(p := None)))"

section \<open>\<^verbatim>\<open>find_chunk_sequences\<close>\<close>

record video_processor =
  video_chunks_dir :: path
  audio_chunks_dir :: path
  video_output_dir :: path
  audio_output_dir :: path
  transcript_output_dir :: "path option"

definition chunk_file :: "path \<Rightarrow> string \<Rightarrow> nat \<Rightarrow> path" where
  "chunk_file d kind i = joinpath d (kind @ ''_'' @ str_nat i @ ''.webm'')"

text \<open>One \<^verbatim>\<open>for i in range(1000)\<close> loop: the indices still to visit and the list built so
  far.\<close>

fun scan_chunks ::
  "filesystem \<Rightarrow> path \<Rightarrow> string \<Rightarrow> nat list \<Rightarrow> (nat \<times> path) list \<Rightarrow> (nat \<times> path) list" where
  "scan_chunks fs d kind [] chunks = chunks"
| "scan_chunks fs d kind (i # rest) chunks =
     (let chunk = chunk_file d kind i
      in scan_chunks fs d kind rest
           (if path_exists fs chunk then chunks @ [(i, chunk)] else chunks))"

definition find_chunk_sequences ::
  "video_processor \<Rightarrow> filesystem \<Rightarrow> (nat \<times> path) list \<times> (nat \<times> path) list" where
  "find_chunk_sequences self fs =
     (let video_chunks = scan_chunks fs (video_chunks_dir self) ''video'' [0..<1000] [];
          audio_chunks = scan_chunks fs (audio_chunks_dir self) ''audio'' [0..<1000] []
      in (sort_key fst video_chunks, sort_key fst audio_chunks))"

text \<open>What the claim describes: the indices below 1000 whose file exists, in ascending
  order, each with its path.\<close>

definition existing_chunks :: "filesystem \<Rightarrow> path \<Rightarrow> string \<Rightarrow> (nat \<times> path) list" where
  "existing_chunks fs d kind =
     map (\<lambda>i. (i, chunk_file d kind i))
       (filter (\<lambda>i. path_exists fs (chunk_file d kind i)) [0..<1000])"

section \<open>The external process and \<^verbatim>\<open>run_ffmpeg\<close>\<close>

text \<open>
  \<^verbatim>\<open>subprocess.run\<close> either cannot start the program, which raises (\<^verbatim>\<open>FileNotFoundError\<close>
  when the binary is missing), or runs it to its end. A finished process is described by
  its exit status, its captured standard output and standard error, the regular files it
  has written, and the clock reading when it ends: it may create and overwrite regular
  files, but it removes nothing and makes no directory. The process is a parameter of
  every function below, so each statement holds for any such behaviour of \<^verbatim>\<open>ffmpeg\<close>.
\<close>

datatype proc_result =
    Not_Launched exn
  | Completed int string string "(path \<times> byte list) list" datetime

type_synonym process = "string list \<Rightarrow> world \<Rightarrow> proc_result"

definition write_file :: "filesystem \<Rightarrow> path \<times> byte list \<Rightarrow> filesystem" where
  "write_file fs e =
     (case e of (p, b) \<Rightarrow> (case fs p of Some Dir \<Rightarrow> fs | _ \<Rightarrow> fs(p \<mapsto> File b)))"

definition after_process :: "world \<Rightarrow> (path \<times> byte list) list \<Rightarrow> datetime \<Rightarrow> world" where
  "after_process w written t = \<lparr>files = foldl write_file (files w) written, now = t\<rparr>"

text \<open>\<^verbatim>\<open>run_ffmpeg\<close>: with \<^verbatim>\<open>check=True\<close> a non-zero exit status raises
  \<^verbatim>\<open>CalledProcessError\<close>, which is the one exception the function catches.\<close>

definition run_ffmpeg :: "process \<Rightarrow> string list \<Rightarrow> world \<Rightarrow> (exn + bool \<times> string) \<times> world" where
  "run_ffmpeg proc command w =
     (case proc command w of
        Not_Launched e \<Rightarrow> (Inl e, w)
      | Completed returncode out err written t \<Rightarrow>
          (if returncode = 0 then Inr (True, out) else Inr (False, err),
           after_process w written t))"

section \<open>\<^verbatim>\<open>concatenate_raw_chunks\<close>\<close>

text \<open>The loop over the fragments inside \<^verbatim>\<open>with open(temp_concat_path, 'wb')\<close>. When a
  read raises, what was written so far stays in the file.\<close>

fun write_chunks :: "path \<Rightarrow> (nat \<times> path) list \<Rightarrow> filesystem \<Rightarrow> (exn + unit) \<times> filesystem" where
  "write_chunks outfile [] fs = (Inr (), fs)"
| "write_chunks outfile ((index, chunk_path) # rest) fs =
     (case read_bytes fs chunk_path of
        Inl e \<Rightarrow> (Inl e, fs)
      | Inr b \<Rightarrow> write_chunks outfile rest (append_bytes fs outfile b))"

definition repair_command :: "path \<Rightarrow> path \<Rightarrow> string list" where
  "repair_command temp_concat_path output_path =
     [''ffmpeg'', ''-y'', ''-fflags'', ''+genpts'', ''-i'', str_path temp_concat_path,
      ''-c'', ''copy'', ''-avoid_negative_ts'', ''make_zero'', str_path output_path]"

text \<open>The raw intermediate as the repair command finds it: the file system after the
  \<^verbatim>\<open>with open\<close> block, or the exception that ended the block.\<close>

definition raw_concatenation ::
  "(nat \<times> path) list \<Rightarrow> path \<Rightarrow> filesystem \<Rightarrow> (exn + unit) \<times> filesystem" where
  "raw_concatenation chunks temp_concat_path fs =
     (case open_wb fs temp_concat_path of
        Inl e \<Rightarrow> (Inl e, fs)
      | Inr fs0 \<Rightarrow> write_chunks temp_concat_path chunks fs0)"

text \<open>\<^verbatim>\<open>if temp_concat_path.exists(): temp_concat_path.unlink()\<close>.\<close>

definition remove_temp :: "path \<Rightarrow> world \<Rightarrow> (exn + unit) \<times> world" where
  "remove_temp temp_concat_path w =
     (if path_exists (files w) temp_concat_path
      then (case unlink (files w) temp_concat_path of
              Inl e \<Rightarrow> (Inl e, w)
            | Inr fs \<Rightarrow> (Inr (), w\<lparr>files := fs\<rparr>))
      else (Inr (), w))"

text \<open>The body of the \<^verbatim>\<open>try\<close>.\<close>

definition concatenate_try ::
  "process \<Rightarrow> (nat \<times> path) list \<Rightarrow> path \<Rightarrow> path \<Rightarrow> world \<Rightarrow> (exn + bool) \<times> world" where
  "concatenate_try proc chunks temp_concat_path output_path w =
     (case raw_concatenation chunks temp_concat_path (files w) of
        (Inl e, fs1) \<Rightarrow> (Inl e, w\<lparr>files := fs1\<rparr>)
      | (Inr u, fs1) \<Rightarrow>
          (case run_ffmpeg proc (repair_command temp_concat_path output_path) (w\<lparr>files := fs1\<rparr>) of
             (Inl e, w2) \<Rightarrow> (Inl e, w2)
           | (Inr (success, output), w2) \<Rightarrow>
               (case remove_temp temp_concat_path w2 of
                  (Inl e, w3) \<Rightarrow> (Inl e, w3)
                | (Inr u, w3) \<Rightarrow> (Inr success, w3))))"

text \<open>The function itself; the parameter \<^verbatim>\<open>chunk_type\<close> is only printed. The call of
  \<^verbatim>\<open>with_suffix\<close> stands before the \<^verbatim>\<open>try\<close>, and the handler of \<^verbatim>\<open>except Exception\<close>
  removes the intermediate before it returns \<^verbatim>\<open>False\<close>.\<close>

definition concatenate_raw_chunks ::
  "process \<Rightarrow> (nat \<times> path) list \<Rightarrow> path \<Rightarrow> world \<Rightarrow> (exn + bool) \<times> world" where
  "concatenate_raw_chunks proc chunks output_path w =
     (if chunks = [] then (Inr False, w)
      else case with_suffix output_path ''.temp.webm'' of
        Inl e \<Rightarrow> (Inl e, w)
      | Inr temp_concat_path \<Rightarrow>
          (case concatenate_try proc chunks temp_concat_path output_path w of
             (Inr success, w1) \<Rightarrow> (Inr success, w1)
           | (Inl e, w1) \<Rightarrow>
               (case remove_temp temp_concat_path w1 of
                  (Inl e', w2) \<Rightarrow> (Inl e', w2)
                | (Inr u, w2) \<Rightarrow> (Inr False, w2))))"

section \<open>\<^verbatim>\<open>mux_video_audio_with_captions\<close>\<close>

text \<open>A \<^verbatim>\<open>Path\<close> is always true in a condition, so \<^verbatim>\<open>if audio_path\<close> and
  \<^verbatim>\<open>if srt_path\<close> ask whether the argument is \<^verbatim>\<open>None\<close>.\<close>

definition mux_command ::
  "filesystem \<Rightarrow> path \<Rightarrow> path option \<Rightarrow> path option \<Rightarrow> path \<Rightarrow> string list" where
  "mux_command fs video_path audio_path srt_path output_path =
     [''ffmpeg'', ''-y'']
     @ [''-i'', str_path video_path]
     @ (case audio_path of Some a \<Rightarrow> [''-i'', str_path a] | None \<Rightarrow> [])
     @ [''-c:v'', ''libx264'', ''-preset'', ''medium'', ''-crf'', ''23'']
     @ (case audio_path of Some a \<Rightarrow> [''-c:a'', ''aac'', ''-b:a'', ''128k''] | None \<Rightarrow> [])
     @ (case srt_path of
          Some s \<Rightarrow>
            if path_exists fs s
            then [''-i'', str_path s, ''-c:s'', ''mov_text'', ''-metadata:s:s:0'', ''language=eng'']
            else []
        | None \<Rightarrow> [])
     @ [''-shortest'', ''-avoid_negative_ts'', ''make_zero'']
     @ [str_path output_path]"

definition mux_video_audio_with_captions ::
  "process \<Rightarrow> path \<Rightarrow> path option \<Rightarrow> path option \<Rightarrow> path \<Rightarrow> world \<Rightarrow> (exn + bool) \<times> world" where
  "mux_video_audio_with_captions proc video_path audio_path srt_path output_path w =
     (case run_ffmpeg proc (mux_command (files w) video_path audio_path srt_path output_path) w of
        (Inl e, w') \<Rightarrow> (Inl e, w')
      | (Inr (success, output), w') \<Rightarrow> (Inr success, w'))"

section \<open>\<^verbatim>\<open>__init__\<close>\<close>

text \<open>\<^verbatim>\<open>os.mkdir\<close>.\<close>

definition os_mkdir :: "filesystem \<Rightarrow> path \<Rightarrow> exn + filesystem" where
  "os_mkdir fs p =
     (case fs p of
        Some n \<Rightarrow> Inl FileExistsError
      | None \<Rightarrow>
          (case fs (parent p) of
             Some Dir \<Rightarrow> Inr (fs(p \<mapsto> Dir))
           | Some (File b) \<Rightarrow> Inl NotADirectoryError
           | None \<Rightarrow> Inl FileNotFoundError))"

text \<open>\<^verbatim>\<open>p.mkdir(parents=True, exist_ok=True)\<close>, as \<^verbatim>\<open>pathlib\<close> writes it: try
  \<^verbatim>\<open>os.mkdir\<close>; on \<^verbatim>\<open>FileNotFoundError\<close> make the parent first and try again; on any
  other \<^verbatim>\<open>OSError\<close> accept an existing directory.\<close>

function mkdir_parents :: "filesystem \<Rightarrow> path \<Rightarrow> exn + filesystem" where
  "mkdir_parents fs p =
     (case os_mkdir fs p of
        Inr fs' \<Rightarrow> Inr fs'
      | Inl e \<Rightarrow>
          if e = FileNotFoundError then
            (if parent p = p then Inl e
             else case mkdir_parents fs (parent p) of
                    Inl e' \<Rightarrow> Inl e'
                  | Inr fs1 \<Rightarrow>
                      (case os_mkdir fs1 p of
                         Inr fs2 \<Rightarrow> Inr fs2
                       | Inl e2 \<Rightarrow>
                           if e2 = FileNotFoundError then Inl e2
                           else if is_dir fs1 p then Inr fs1 else Inl e2))
          else if is_dir fs p then Inr fs else Inl e)"
  by pat_completeness auto
termination
proof (relation "measure (\<lambda>(fs, p). length p)", goal_cases)
  case 1
  show ?case by simp
next
  case (2 fs p)
  then have "p \<noteq> []" by (auto simp: parent_def)
  with 2 show ?case by (auto simp: parent_def split: if_splits)
qed

declare mkdir_parents.simps [simp del]

definition init ::
  "path \<Rightarrow> path \<Rightarrow> path \<Rightarrow> path \<Rightarrow> path option \<Rightarrow> filesystem \<Rightarrow> exn + video_processor \<times> filesystem" where
  "init video_chunks audio_chunks video_output audio_output transcript_output fs =
     (let self = \<lparr>video_chunks_dir = video_chunks, audio_chunks_dir = audio_chunks,
                  video_output_dir = video_output, audio_output_dir = audio_output,
                  transcript_output_dir = transcript_output\<rparr>
      in case mkdir_parents fs video_output of
           Inl e \<Rightarrow> Inl e
         | Inr fs1 \<Rightarrow>
             (case mkdir_parents fs1 audio_output of
                Inl e \<Rightarrow> Inl e
              | Inr fs2 \<Rightarrow>
                  (case transcript_output of
                     None \<Rightarrow> Inr (self, fs2)
                   | Some t \<Rightarrow>
                       (case mkdir_parents fs2 t of
                          Inl e \<Rightarrow> Inl e
                        | Inr fs3 \<Rightarrow> Inr (self, fs3)))))"

section \<open>\<^verbatim>\<open>process_chunks\<close>\<close>

subsection \<open>The temporary directory\<close>

text \<open>\<^verbatim>\<open>tempfile.mkdtemp\<close> draws candidate names and makes the first one that does not
  exist yet; the candidates it draws are a parameter. It gives up with
  \<^verbatim>\<open>FileExistsError\<close> when all of them exist.\<close>

fun mkdtemp :: "path list \<Rightarrow> filesystem \<Rightarrow> exn + path \<times> filesystem" where
  "mkdtemp [] fs = Inl FileExistsError"
| "mkdtemp (c # cs) fs =
     (case os_mkdir fs c of
        Inr fs' \<Rightarrow> Inr (c, fs')
      | Inl e \<Rightarrow> if e = FileExistsError then mkdtemp cs fs else Inl e)"

text \<open>Leaving \<^verbatim>\<open>with tempfile.TemporaryDirectory()\<close> removes the directory and all below
  it with \<^verbatim>\<open>shutil.rmtree\<close>, which raises when the path is a regular file; a directory
  that is gone already is accepted.\<close>

definition rmtree :: "filesystem \<Rightarrow> path \<Rightarrow> exn + filesystem" where
  "rmtree fs d =
     (case fs d of
        Some (File b) \<Rightarrow> Inl NotADirectoryError
      | Some Dir \<Rightarrow> Inr (\<lambda>p. if prefix d p then None else fs p)
      | None \<Rightarrow> Inr fs)"

subsection \<open>Time stamps\<close>

definition zero_pad :: "nat \<Rightarrow> string \<Rightarrow> string" where
  "zero_pad k s = replicate (k - length s) CHR ''0'' @ s"

text \<open>\<^verbatim>\<open>strftime("%Y-%m-%d_%H-%M-%S")\<close>.\<close>

definition strftime :: "datetime \<Rightarrow> string" where
  "strftime t =
     zero_pad 4 (str_nat (year t)) @ ''-'' @ zero_pad 2 (str_nat (month t)) @ ''-''
     @ zero_pad 2 (str_nat (day t)) @ ''_'' @ zero_pad 2 (str_nat (hour t)) @ ''-''
     @ zero_pad 2 (str_nat (minute t)) @ ''-'' @ zero_pad 2 (str_nat (second t))"

definition final_video_name :: "video_processor \<Rightarrow> string \<Rightarrow> path" where
  "final_video_name self timestamp =
     joinpath (video_output_dir self) (''output_'' @ timestamp @ ''.mp4'')"

definition final_audio_name :: "video_processor \<Rightarrow> string \<Rightarrow> path" where
  "final_audio_name self timestamp =
     joinpath (audio_output_dir self) (''audio_'' @ timestamp @ ''.wav'')"

subsection \<open>The steps inside the temporary directory\<close>

text \<open>Step 2, the audio fragments: the path of the repaired audio, or \<^verbatim>\<open>None\<close>.\<close>

definition concatenate_audio ::
  "process \<Rightarrow> (nat \<times> path) list \<Rightarrow> path \<Rightarrow> world \<Rightarrow> (exn + path option) \<times> world" where
  "concatenate_audio proc audio_chunks temp_dir w =
     (if audio_chunks \<noteq> [] then
        (let audio_concat_path = joinpath temp_dir ''audio_concatenated.webm''
         in case concatenate_raw_chunks proc audio_chunks audio_concat_path w of
              (Inl e, w') \<Rightarrow> (Inl e, w')
            | (Inr ok, w') \<Rightarrow> (Inr (if ok then Some audio_concat_path else None), w'))
      else (Inr None, w))"

definition wav_command :: "path \<Rightarrow> path \<Rightarrow> string list" where
  "wav_command audio_concat_path final_audio_path =
     [''ffmpeg'', ''-y'', ''-i'', str_path audio_concat_path, ''-acodec'', ''pcm_s16le'',
      ''-ar'', ''44100'', str_path final_audio_path]"

text \<open>Step 4, the standalone audio file: \<^verbatim>\<open>saved_audio_path\<close>. The \<^verbatim>\<open>except Exception\<close>
  around the command only prints.\<close>

definition save_audio ::
  "process \<Rightarrow> path option \<Rightarrow> path \<Rightarrow> world \<Rightarrow> path option \<times> world" where
  "save_audio proc audio_concat_path final_audio_path w =
     (case audio_concat_path of
        None \<Rightarrow> (None, w)
      | Some a \<Rightarrow>
          if path_exists (files w) a then
            (case run_ffmpeg proc (wav_command a final_audio_path) w of
               (Inl e, w') \<Rightarrow> (None, w')
             | (Inr (success, output), w') \<Rightarrow>
                 (if success then Some final_audio_path else None, w'))
          else (None, w))"

text \<open>Steps 3 to 5: the names, the standalone audio file and the final video.\<close>

definition finish_run ::
  "process \<Rightarrow> video_processor \<Rightarrow> path \<Rightarrow> path option \<Rightarrow> path option \<Rightarrow> world
     \<Rightarrow> (exn + path option \<times> path option) \<times> world" where
  "finish_run proc self video_concat_path audio_concat_path srt_path w =
     (let timestamp = strftime (now w);
          final_video_path = final_video_name self timestamp;
          final_audio_path = final_audio_name self timestamp
      in case save_audio proc audio_concat_path final_audio_path w of
           (saved_audio_path, w1) \<Rightarrow>
             (case mux_video_audio_with_captions proc video_concat_path audio_concat_path
                     srt_path final_video_path w1 of
                (Inl e, w2) \<Rightarrow> (Inl e, w2)
              | (Inr ok, w2) \<Rightarrow>
                  (Inr (if ok then Some final_video_path else None, saved_audio_path), w2)))"

text \<open>The body of the \<^verbatim>\<open>with\<close> block.\<close>

definition process_in_tempdir ::
  "process \<Rightarrow> video_processor \<Rightarrow> (nat \<times> path) list \<Rightarrow> (nat \<times> path) list \<Rightarrow> path option
     \<Rightarrow> path \<Rightarrow> world \<Rightarrow> (exn + path option \<times> path option) \<times> world" where
  "process_in_tempdir proc self video_chunks audio_chunks srt_path temp_dir w =
     (let video_concat_path = joinpath temp_dir ''video_concatenated.webm''
      in case concatenate_raw_chunks proc video_chunks video_concat_path w of
           (Inl e, w1) \<Rightarrow> (Inl e, w1)
         | (Inr ok, w1) \<Rightarrow>
             if \<not> ok then (Inr (None, None), w1)
             else (case concatenate_audio proc audio_chunks temp_dir w1 of
                     (Inl e, w2) \<Rightarrow> (Inl e, w2)
                   | (Inr audio_concat_path, w2) \<Rightarrow>
                       finish_run proc self video_concat_path audio_concat_path srt_path w2))"

text \<open>\<^verbatim>\<open>process_chunks\<close>. The temporary directory is removed however the block is left,
  by a return or by an exception.\<close>

definition process_chunks ::
  "process \<Rightarrow> path list \<Rightarrow> video_processor \<Rightarrow> path option \<Rightarrow> world
     \<Rightarrow> (exn + path option \<times> path option) \<times> world" where
  "process_chunks proc temp_names self srt_path w =
     (case find_chunk_sequences self (files w) of
        (video_chunks, audio_chunks) \<Rightarrow>
          if video_chunks = [] then (Inr (None, None), w)
          else (case mkdtemp temp_names (files w) of
                  Inl e \<Rightarrow> (Inl e, w)
                | Inr (temp_dir, fs1) \<Rightarrow>
                    (case process_in_tempdir proc self video_chunks audio_chunks srt_path
                            temp_dir (w\<lparr>files := fs1\<rparr>) of
                       (r, w2) \<Rightarrow>
                         (case rmtree (files w2) temp_dir of
                            Inl e \<Rightarrow> (Inl e, w2)
                          | Inr fs3 \<Rightarrow> (r, w2\<lparr>files := fs3\<rparr>)))))"


section \<open>\<^verbatim>\<open>concatenate_raw_chunks\<close> with console output and permissions\<close>

text \<open>
  The functions above take every \<^verbatim>\<open>print\<close> to succeed and every file operation to be
  permitted. For the question which exceptions leave \<^verbatim>\<open>concatenate_raw_chunks\<close> this
  section models the function and what it calls once more, line by line, in an
  environment that decides four things the operating system decides: whether a
  \<^verbatim>\<open>print\<close> raises (an encoding error on a console that cannot show the symbols of the
  message, a closed pipe), whether \<^verbatim>\<open>exists\<close> raises because the status of the path
  cannot be read, whether \<^verbatim>\<open>open\<close> raises, and whether \<^verbatim>\<open>unlink\<close> is denied. In the
  environment \<open>quiet\<close>, where none of this happens, the functions of this section
  are the functions above.
\<close>

text \<open>The messages, by the line that prints them: 25, 26, 37, 39, 72, 80, 84, 109.\<close>

datatype message =
    Ffmpeg_description string
  | Ffmpeg_running "string list"
  | Ffmpeg_error "string list" int
  | Ffmpeg_stderr string
  | Concatenating nat string
  | Adding string nat
  | Raw_concatenation_complete
  | Error_during_raw_concatenation exn

record environment =
  console :: "message \<Rightarrow> exn option"
  stat_failure :: "path \<Rightarrow> exn option"
  open_failure :: "path \<Rightarrow> exn option"
  removal_denied :: "path \<Rightarrow> bool"

definition quiet :: environment where
  "quiet = \<lparr>console = (\<lambda>m. None), stat_failure = (\<lambda>p. None), open_failure = (\<lambda>p. None),
            removal_denied = (\<lambda>p. False)\<rparr>"

definition print :: "environment \<Rightarrow> message \<Rightarrow> exn + unit" where
  "print env m = (case console env m of Some e \<Rightarrow> Inl e | None \<Rightarrow> Inr ())"

text \<open>\<^verbatim>\<open>p.exists()\<close>, which passes on an error of \<^verbatim>\<open>stat\<close> other than a missing path.\<close>

definition exists_in :: "environment \<Rightarrow> filesystem \<Rightarrow> path \<Rightarrow> exn + bool" where
  "exists_in env fs p =
     (case stat_failure env p of Some e \<Rightarrow> Inl e | None \<Rightarrow> Inr (path_exists fs p))"

definition read_bytes_in :: "environment \<Rightarrow> filesystem \<Rightarrow> path \<Rightarrow> exn + byte list" where
  "read_bytes_in env fs p =
     (case open_failure env p of Some e \<Rightarrow> Inl e | None \<Rightarrow> read_bytes fs p)"

definition open_wb_in :: "environment \<Rightarrow> filesystem \<Rightarrow> path \<Rightarrow> exn + filesystem" where
  "open_wb_in env fs p =
     (case open_failure env p of Some e \<Rightarrow> Inl e | None \<Rightarrow> open_wb fs p)"

text \<open>\<^verbatim>\<open>p.unlink()\<close>: a path that exists cannot be removed when its directory denies it
  (it is not writable, or it is sticky and the file belongs to someone else).\<close>

definition unlink_in :: "environment \<Rightarrow> filesystem \<Rightarrow> path \<Rightarrow> exn + filesystem" where
  "unlink_in env fs p =
     (case fs p of
        None \<Rightarrow> Inl FileNotFoundError
      | Some n \<Rightarrow>
          if removal_denied env p then Inl PermissionError
          else (case n of Dir \<Rightarrow> Inl IsADirectoryError | File b \<Rightarrow> Inr (fs(p := None))))"

text \<open>\<^verbatim>\<open>run_ffmpeg\<close> with its four \<^verbatim>\<open>print\<close> calls; the two in the \<^verbatim>\<open>except\<close> block are
  not guarded.\<close>

definition run_ffmpeg_in ::
  "environment \<Rightarrow> process \<Rightarrow> string list \<Rightarrow> string \<Rightarrow> world \<Rightarrow> (exn + bool \<times> string) \<times> world" where
  "run_ffmpeg_in env proc command description w =
     (case print env (Ffmpeg_description description) of
        Inl e \<Rightarrow> (Inl e, w)
      | Inr u \<Rightarrow>
     (case print env (Ffmpeg_running command) of
        Inl e \<Rightarrow> (Inl e, w)
      | Inr u \<Rightarrow>
     (case proc command w of
        Not_Launched e \<Rightarrow> (Inl e, w)
      | Completed returncode out err written t \<Rightarrow>
          if returncode = 0 then (Inr (True, out), after_process w written t)
          else (case print env (Ffmpeg_error command returncode) of
                  Inl e \<Rightarrow> (Inl e, after_process w written t)
                | Inr u \<Rightarrow>
                    if err \<noteq> [] then
                      (case print env (Ffmpeg_stderr err) of
                         Inl e \<Rightarrow> (Inl e, after_process w written t)
                       | Inr u \<Rightarrow> (Inr (False, err), after_process w written t))
                    else (Inr (False, err), after_process w written t)))))"

fun write_chunks_in ::
  "environment \<Rightarrow> string \<Rightarrow> path \<Rightarrow> (nat \<times> path) list \<Rightarrow> filesystem
     \<Rightarrow> (exn + unit) \<times> filesystem" where
  "write_chunks_in env chunk_type outfile [] fs = (Inr (), fs)"
| "write_chunks_in env chunk_type outfile ((index, chunk_path) # rest) fs =
     (case print env (Adding chunk_type index) of
        Inl e \<Rightarrow> (Inl e, fs)
      | Inr u \<Rightarrow>
          (case read_bytes_in env fs chunk_path of
             Inl e \<Rightarrow> (Inl e, fs)
           | Inr b \<Rightarrow> write_chunks_in env chunk_type outfile rest (append_bytes fs outfile b)))"

definition raw_concatenation_in ::
  "environment \<Rightarrow> string \<Rightarrow> (nat \<times> path) list \<Rightarrow> path \<Rightarrow> filesystem
     \<Rightarrow> (exn + unit) \<times> filesystem" where
  "raw_concatenation_in env chunk_type chunks temp_concat_path fs =
     (case open_wb_in env fs temp_concat_path of
        Inl e \<Rightarrow> (Inl e, fs)
      | Inr fs0 \<Rightarrow> write_chunks_in env chunk_type temp_concat_path chunks fs0)"

definition remove_temp_in :: "environment \<Rightarrow> path \<Rightarrow> world \<Rightarrow> (exn + unit) \<times> world" where
  "remove_temp_in env temp_concat_path w =
     (case exists_in env (files w) temp_concat_path of
        Inl e \<Rightarrow> (Inl e, w)
      | Inr present \<Rightarrow>
          if present
          then (case unlink_in env (files w) temp_concat_path of
                  Inl e \<Rightarrow> (Inl e, w)
                | Inr fs \<Rightarrow> (Inr (), w\<lparr>files := fs\<rparr>))
          else (Inr (), w))"

text \<open>The body of the \<^verbatim>\<open>try\<close>, lines 78 to 106.\<close>

definition concatenate_try_in ::
  "environment \<Rightarrow> process \<Rightarrow> (nat \<times> path) list \<Rightarrow> path \<Rightarrow> path \<Rightarrow> string \<Rightarrow> world
     \<Rightarrow> (exn + bool) \<times> world" where
  "concatenate_try_in env proc chunks temp_concat_path output_path chunk_type w =
     (case raw_concatenation_in env chunk_type chunks temp_concat_path (files w) of
        (Inl e, fs1) \<Rightarrow> (Inl e, w\<lparr>files := fs1\<rparr>)
      | (Inr u, fs1) \<Rightarrow>
     (case print env Raw_concatenation_complete of
        Inl e \<Rightarrow> (Inl e, w\<lparr>files := fs1\<rparr>)
      | Inr u \<Rightarrow>
     (case run_ffmpeg_in env proc (repair_command temp_concat_path output_path)
             (''Fixing concatenated '' @ chunk_type @ '' file'') (w\<lparr>files := fs1\<rparr>) of
        (Inl e, w2) \<Rightarrow> (Inl e, w2)
      | (Inr (success, output), w2) \<Rightarrow>
          (case remove_temp_in env temp_concat_path w2 of
             (Inl e, w3) \<Rightarrow> (Inl e, w3)
           | (Inr u, w3) \<Rightarrow> (Inr success, w3)))))"

text \<open>The whole function, lines 69 to 112: the test for an empty list, the \<^verbatim>\<open>print\<close> of
  line 72 and \<^verbatim>\<open>with_suffix\<close> before the \<^verbatim>\<open>try\<close>, and the handler with its own
  \<^verbatim>\<open>print\<close>, \<^verbatim>\<open>exists\<close> and \<^verbatim>\<open>unlink\<close>.\<close>

definition concatenate_raw_chunks_in ::
  "environment \<Rightarrow> process \<Rightarrow> (nat \<times> path) list \<Rightarrow> path \<Rightarrow> string \<Rightarrow> world
     \<Rightarrow> (exn + bool) \<times> world" where
  "concatenate_raw_chunks_in env proc chunks output_path chunk_type w =
     (if chunks = [] then (Inr False, w)
      else case print env (Concatenating (length chunks) chunk_type) of
        Inl e \<Rightarrow> (Inl e, w)
      | Inr u \<Rightarrow>
     (case with_suffix output_path ''.temp.webm'' of
        Inl e \<Rightarrow> (Inl e, w)
      | Inr temp_concat_path \<Rightarrow>
          (case concatenate_try_in env proc chunks temp_concat_path output_path chunk_type w of
             (Inr success, w1) \<Rightarrow> (Inr success, w1)
           | (Inl e, w1) \<Rightarrow>
               (case print env (Error_during_raw_concatenation e) of
                  Inl e' \<Rightarrow> (Inl e', w1)
                | Inr u \<Rightarrow>
                    (case remove_temp_in env temp_concat_path w1 of
                       (Inl e', w2) \<Rightarrow> (Inl e', w2)
                     | (Inr u, w2) \<Rightarrow> (Inr False, w2))))))"

section \<open>Notions used in the statements, and a concrete installation\<close>

text \<open>The bytes of a regular file; a directory or a missing path has none.\<close>

definition file_bytes :: "filesystem \<Rightarrow> path \<Rightarrow> byte list" where
  "file_bytes fs p = (case fs p of Some (File b) \<Rightarrow> b | _ \<Rightarrow> [])"

text \<open>A small installation on which the statements below are exercised: one video and
  one audio fragment, the output directories, and a directory for temporary files.\<close>

definition ex_self :: video_processor where
  "ex_self =
     \<lparr>video_chunks_dir = [''in'', ''video''], audio_chunks_dir = [''in'', ''audio''],
      video_output_dir = [''out'', ''video''], audio_output_dir = [''out'', ''audio''],
      transcript_output_dir = None\<rparr>"

definition ex_dirs :: filesystem where
  "ex_dirs =
     [[''in''] \<mapsto> Dir, [''in'', ''video''] \<mapsto> Dir, [''in'', ''audio''] \<mapsto> Dir,
      [''out''] \<mapsto> Dir, [''out'', ''video''] \<mapsto> Dir, [''out'', ''audio''] \<mapsto> Dir,
      [''tmp''] \<mapsto> Dir]"

definition ex_files :: filesystem where
  "ex_files =
     ex_dirs([''in'', ''video'', ''video_0.webm''] \<mapsto> File [26, 69],
             [''in'', ''audio'', ''audio_0.webm''] \<mapsto> File [79])"

definition ex_time :: datetime where
  "ex_time = \<lparr>year = 2025, month = 6, day = 28, hour = 9, minute = 5, second = 0\<rparr>"

definition ex_world :: world where
  "ex_world = \<lparr>files = ex_files, now = ex_time\<rparr>"

definition ex_temp_names :: "path list" where
  "ex_temp_names = [[''tmp''], [''tmp'', ''tmpa1b2'']]"

text \<open>A disk that holds the current directory and nothing else.\<close>

definition ex_empty_disk :: filesystem where
  "ex_empty_disk = [[] \<mapsto> Dir]"

text \<open>The same installation once the temporary directory of a run has been made.\<close>

definition ex_temp_dir :: path where
  "ex_temp_dir = [''tmp'', ''tmpa1b2'']"

definition ex_run_world :: world where
  "ex_run_world = \<lparr>files = ex_files(ex_temp_dir \<mapsto> Dir), now = ex_time\<rparr>"

text \<open>The installation once the repaired audio has been written.\<close>

definition ex_repaired_world :: world where
  "ex_repaired_world =
     ex_run_world\<lparr>files := (files ex_run_world)
        ([''tmp'', ''tmpa1b2'', ''audio_concatenated.webm''] \<mapsto> File [79])\<rparr>"

text \<open>A second video fragment, at index 2: index 1 is missing.\<close>

definition ex_gap_world :: world where
  "ex_gap_world =
     ex_run_world\<lparr>files := (files ex_run_world)
        ([''in'', ''video'', ''video_2.webm''] \<mapsto> File [7, 8, 9])\<rparr>"

text \<open>Four behaviours of the external program: it is not installed; it always exits
  with status 1; it always succeeds, writes nothing and takes five seconds; it fails on
  the commands that name a given argument and succeeds on the others, leaving the
  repaired audio behind when that is the file it is asked to produce.\<close>

definition no_ffmpeg :: process where
  "no_ffmpeg command w = Not_Launched FileNotFoundError"

definition failing_ffmpeg :: process where
  "failing_ffmpeg command w = Completed 1 [] ''Invalid data found'' [] (now w)"

definition slow_ffmpeg :: process where
  "slow_ffmpeg command w = Completed 0 ''done'' [] [] ((now w)\<lparr>second := second (now w) + 5\<rparr>)"

definition ffmpeg_failing_on :: "string \<Rightarrow> process" where
  "ffmpeg_failing_on arg command w =
     (if arg \<in> set command then Completed 1 [] ''Invalid data found'' [] (now w)
      else Completed 0 ''done'' []
             (if last command = ''tmp/tmpa1b2/audio_concatenated.webm''
              then [([''tmp'', ''tmpa1b2'', ''audio_concatenated.webm''], [79])] else [])
             (now w))"

text \<open>The program is there for the first commands and gone before the one that names
  a given argument.\<close>

definition ffmpeg_missing_on :: "string \<Rightarrow> process" where
  "ffmpeg_missing_on arg command w =
     (if arg \<in> set command then Not_Launched FileNotFoundError
      else Completed 0 ''done'' [] [] (now w))"

section \<open>Properties of the scan\<close>

lemma scan_chunks_eq:
  "scan_chunks fs d kind is chunks =
     chunks @ map (\<lambda>i. (i, chunk_file d kind i))
       (filter (\<lambda>i. path_exists fs (chunk_file d kind i)) is)"
  by (induction "is" arbitrary: chunks) (simp_all add: Let_def)

lemma existing_chunks_indices:
  "map fst (existing_chunks fs d kind) =
     filter (\<lambda>i. path_exists fs (chunk_file d kind i)) [0..<1000]"
  by (simp add: existing_chunks_def comp_def)

lemma existing_chunks_ascending: "sorted_wrt (<) (map fst (existing_chunks fs d kind))"
  unfolding existing_chunks_indices by (rule sorted_wrt_filter) simp

lemma sort_key_existing_chunks:
  "sort_key fst (existing_chunks fs d kind) = existing_chunks fs d kind"
proof -
  have "sorted (map fst (existing_chunks fs d kind))"
    using existing_chunks_ascending [of fs d kind] strict_sorted_imp_sorted by blast
  then show ?thesis by (rule sort_key_id_if_sorted)
qed

lemma find_chunk_sequences_eq:
  "find_chunk_sequences self fs =
     (existing_chunks fs (video_chunks_dir self) ''video'',
      existing_chunks fs (audio_chunks_dir self) ''audio'')"
proof -
  have "scan_chunks fs d kind [0..<1000] [] = existing_chunks fs d kind" for d kind
    by (simp add: scan_chunks_eq existing_chunks_def)
  then show ?thesis
    by (simp add: find_chunk_sequences_def sort_key_existing_chunks)
qed

text \<open>
  C1. For every file system, \<^verbatim>\<open>find_chunk_sequences\<close> returns for each stream kind
  exactly the pairs (index, path) of the indices in [0, 1000) whose file
  \<^verbatim>\<open>{kind}_{i}.webm\<close> exists in that kind's directory, in strictly ascending index
  order. The function has no error result: a missing index is skipped, and a directory
  without such files gives the empty list.
\<close>

theorem find_chunk_sequences_exact:
  "find_chunk_sequences self fs =
     (map (\<lambda>i. (i, chunk_file (video_chunks_dir self) ''video'' i))
        (filter (\<lambda>i. path_exists fs (chunk_file (video_chunks_dir self) ''video'' i)) [0..<1000]),
      map (\<lambda>i. (i, chunk_file (audio_chunks_dir self) ''audio'' i))
        (filter (\<lambda>i. path_exists fs (chunk_file (audio_chunks_dir self) ''audio'' i)) [0..<1000]))
   \<and> sorted_wrt (<) (map fst (fst (find_chunk_sequences self fs)))
   \<and> sorted_wrt (<) (map fst (snd (find_chunk_sequences self fs)))"
  unfolding find_chunk_sequences_eq
  by (simp add: existing_chunks_ascending) (simp add: existing_chunks_def)

section \<open>An external process leaves directories as they are\<close>

lemma write_file_dir: "(write_file fs e p = Some Dir) = (fs p = Some Dir)"
  by (cases e) (auto simp: write_file_def split: option.splits node.splits)

lemma foldl_write_file_dir: "(foldl write_file fs es p = Some Dir) = (fs p = Some Dir)"
  by (induction es arbitrary: fs) (simp_all add: write_file_dir)

lemma run_ffmpeg_dir:
  "(files (snd (run_ffmpeg proc command w)) p = Some Dir) = (files w p = Some Dir)"
  by (simp add: run_ffmpeg_def after_process_def foldl_write_file_dir split: proc_result.splits)

lemma open_wb_dir: "open_wb fs t = Inr fs' \<Longrightarrow> (fs' p = Some Dir) = (fs p = Some Dir)"
  by (auto simp: open_wb_def split: option.splits node.splits if_splits)

lemma append_bytes_dir: "(append_bytes fs t b p = Some Dir) = (fs p = Some Dir)"
  by (auto simp: append_bytes_def split: option.splits node.splits)

lemma write_chunks_dir: "(snd (write_chunks t chunks fs) p = Some Dir) = (fs p = Some Dir)"
  by (induction t chunks fs rule: write_chunks.induct)
     (simp_all add: append_bytes_dir split: sum.splits)

lemma raw_concatenation_dir:
  "(snd (raw_concatenation chunks t fs) p = Some Dir) = (fs p = Some Dir)"
  by (auto simp: raw_concatenation_def write_chunks_dir open_wb_dir split: sum.splits)

lemma remove_temp_dir:
  "(files (snd (remove_temp t w)) p = Some Dir) = (files w p = Some Dir)"
  by (auto simp: remove_temp_def unlink_def split: option.splits node.splits)

lemma concatenate_try_dir:
  "(files (snd (concatenate_try proc chunks t out w)) p = Some Dir) = (files w p = Some Dir)"
proof -
  obtain r1 fs1 where r1: "raw_concatenation chunks t (files w) = (r1, fs1)"
    by (cases "raw_concatenation chunks t (files w)")
  have d1: "(fs1 p = Some Dir) = (files w p = Some Dir)"
    using raw_concatenation_dir [of chunks t "files w" p] r1 by simp
  obtain r2 w2 where r2: "run_ffmpeg proc (repair_command t out) (w\<lparr>files := fs1\<rparr>) = (r2, w2)"
    by (cases "run_ffmpeg proc (repair_command t out) (w\<lparr>files := fs1\<rparr>)")
  have d2: "(files w2 p = Some Dir) = (fs1 p = Some Dir)"
    using run_ffmpeg_dir [of proc "repair_command t out" "w\<lparr>files := fs1\<rparr>" p] r2 by simp
  obtain r3 w3 where r3: "remove_temp t w2 = (r3, w3)"
    by (cases "remove_temp t w2")
  have d3: "(files w3 p = Some Dir) = (files w2 p = Some Dir)"
    using remove_temp_dir [of t w2 p] r3 by simp
  show ?thesis
    using r1 r2 r3 d1 d2 d3
    by (auto simp: concatenate_try_def split: sum.splits prod.splits)
qed

lemma concatenate_raw_chunks_dir:
  "(files (snd (concatenate_raw_chunks proc chunks out w)) p = Some Dir) = (files w p = Some Dir)"
proof (cases "chunks = []")
  case True
  then show ?thesis by (simp add: concatenate_raw_chunks_def)
next
  case False
  show ?thesis
  proof (cases "with_suffix out ''.temp.webm''")
    case (Inl e)
    with False show ?thesis by (simp add: concatenate_raw_chunks_def)
  next
    case (Inr t)
    obtain r1 w1 where r1: "concatenate_try proc chunks t out w = (r1, w1)"
      by (cases "concatenate_try proc chunks t out w")
    have d1: "(files w1 p = Some Dir) = (files w p = Some Dir)"
      using concatenate_try_dir [of proc chunks t out w p] r1 by simp
    obtain r2 w2 where r2: "remove_temp t w1 = (r2, w2)"
      by (cases "remove_temp t w1")
    have d2: "(files w2 p = Some Dir) = (files w1 p = Some Dir)"
      using remove_temp_dir [of t w1 p] r2 by simp
    show ?thesis
      using False Inr r1 r2 d1 d2
      by (auto simp: concatenate_raw_chunks_def split: sum.splits)
  qed
qed

lemma concatenate_audio_dir:
  "(files (snd (concatenate_audio proc chunks d w)) p = Some Dir) = (files w p = Some Dir)"
proof -
  obtain r1 w1 where r1:
    "concatenate_raw_chunks proc chunks (joinpath d ''audio_concatenated.webm'') w = (r1, w1)"
    by (cases "concatenate_raw_chunks proc chunks (joinpath d ''audio_concatenated.webm'') w")
  have "(files w1 p = Some Dir) = (files w p = Some Dir)"
    using concatenate_raw_chunks_dir [of proc chunks "joinpath d ''audio_concatenated.webm''" w p] r1
    by simp
  with r1 show ?thesis
    by (auto simp: concatenate_audio_def Let_def split: sum.splits)
qed

lemma save_audio_dir:
  "(files (snd (save_audio proc a f w)) p = Some Dir) = (files w p = Some Dir)"
proof (cases a)
  case None
  then show ?thesis by (simp add: save_audio_def)
next
  case (Some x)
  obtain r1 w1 where r1: "run_ffmpeg proc (wav_command x f) w = (r1, w1)"
    by (cases "run_ffmpeg proc (wav_command x f) w")
  have "(files w1 p = Some Dir) = (files w p = Some Dir)"
    using run_ffmpeg_dir [of proc "wav_command x f" w p] r1 by simp
  with Some r1 show ?thesis
    by (auto simp: save_audio_def split: sum.splits)
qed

lemma mux_dir:
  "(files (snd (mux_video_audio_with_captions proc v a s out w)) p = Some Dir)
     = (files w p = Some Dir)"
proof -
  obtain r1 w1 where r1: "run_ffmpeg proc (mux_command (files w) v a s out) w = (r1, w1)"
    by (cases "run_ffmpeg proc (mux_command (files w) v a s out) w")
  have "(files w1 p = Some Dir) = (files w p = Some Dir)"
    using run_ffmpeg_dir [of proc "mux_command (files w) v a s out" w p] r1 by simp
  with r1 show ?thesis
    by (auto simp: mux_video_audio_with_captions_def split: sum.splits)
qed

lemma finish_run_dir:
  "(files (snd (finish_run proc self v a s w)) p = Some Dir) = (files w p = Some Dir)"
proof -
  let ?fv = "final_video_name self (strftime (now w))"
  let ?fa = "final_audio_name self (strftime (now w))"
  obtain r1 w1 where r1: "save_audio proc a ?fa w = (r1, w1)"
    by (cases "save_audio proc a ?fa w")
  have d1: "(files w1 p = Some Dir) = (files w p = Some Dir)"
    using save_audio_dir [of proc a ?fa w p] r1 by simp
  obtain r2 w2 where r2: "mux_video_audio_with_captions proc v a s ?fv w1 = (r2, w2)"
    by (cases "mux_video_audio_with_captions proc v a s ?fv w1")
  have d2: "(files w2 p = Some Dir) = (files w1 p = Some Dir)"
    using mux_dir [of proc v a s ?fv w1 p] r2 by simp
  show ?thesis
    using r1 r2 d1 d2 by (auto simp: finish_run_def Let_def split: sum.splits)
qed

lemma process_in_tempdir_dir:
  "(files (snd (process_in_tempdir proc self vc ac s d w)) p = Some Dir) = (files w p = Some Dir)"
proof -
  let ?v = "joinpath d ''video_concatenated.webm''"
  obtain r1 w1 where r1: "concatenate_raw_chunks proc vc ?v w = (r1, w1)"
    by (cases "concatenate_raw_chunks proc vc ?v w")
  have d1: "(files w1 p = Some Dir) = (files w p = Some Dir)"
    using concatenate_raw_chunks_dir [of proc vc ?v w p] r1 by simp
  obtain r2 w2 where r2: "concatenate_audio proc ac d w1 = (r2, w2)"
    by (cases "concatenate_audio proc ac d w1")
  have d2: "(files w2 p = Some Dir) = (files w1 p = Some Dir)"
    using concatenate_audio_dir [of proc ac d w1 p] r2 by simp
  have d3: "(files (snd (finish_run proc self ?v a s w2)) p = Some Dir) = (files w2 p = Some Dir)" for a
    by (rule finish_run_dir)
  show ?thesis
    using r1 r2 d1 d2 d3 by (auto simp: process_in_tempdir_def Let_def split: sum.splits)
qed

section \<open>The raw intermediate\<close>

lemma write_chunks_content:
  "fs t = Some (File acc) \<Longrightarrow>
   \<forall>c \<in> set chunks. snd c \<noteq> t \<and> (\<exists>b. fs (snd c) = Some (File b)) \<Longrightarrow>
   write_chunks t chunks fs =
     (Inr (), fs(t \<mapsto> File (acc @ concat (map (\<lambda>c. file_bytes fs (snd c)) chunks))))"
proof (induction chunks arbitrary: fs acc)
  case Nil
  then show ?case by (simp add: fun_upd_idem)
next
  case (Cons c chunks)
  obtain i p where c: "c = (i, p)" by (cases c)
  from Cons.prems c obtain b where b: "fs p = Some (File b)" and pt: "p \<noteq> t" by auto
  let ?fs = "fs(t \<mapsto> File (acc @ b))"
  have step: "append_bytes fs t b = ?fs"
    using Cons.prems(1) by (simp add: append_bytes_def)
  have same: "file_bytes ?fs (snd c') = file_bytes fs (snd c')" if "c' \<in> set chunks" for c'
    using that Cons.prems(2) by (simp add: file_bytes_def)
  have fb: "file_bytes fs p = b" using b by (simp add: file_bytes_def)
  have rb: "read_bytes fs p = Inr b" using b by (simp add: read_bytes_def)
  have ih: "write_chunks t chunks ?fs =
          (Inr (), ?fs(t \<mapsto> File ((acc @ b) @ concat (map (\<lambda>c. file_bytes ?fs (snd c)) chunks))))"
    using Cons.prems(2) by (intro Cons.IH) auto
  have eq: "map (\<lambda>c. file_bytes ?fs (snd c)) chunks = map (\<lambda>c. file_bytes fs (snd c)) chunks"
    using same by (intro map_cong) auto
  have "write_chunks t (c # chunks) fs = write_chunks t chunks ?fs"
    using rb step c by simp
  also have "\<dots> = (Inr (), ?fs(t \<mapsto> File ((acc @ b) @ concat (map (\<lambda>c. file_bytes fs (snd c)) chunks))))"
    by (simp only: ih eq)
  also have "?fs(t \<mapsto> File ((acc @ b) @ concat (map (\<lambda>c. file_bytes fs (snd c)) chunks)))
      = fs(t \<mapsto> File (acc @ concat (map (\<lambda>c. file_bytes fs (snd c)) (c # chunks))))"
    using fb c by simp
  finally show ?case .
qed

lemma raw_concatenation_content:
  assumes "\<forall>c \<in> set chunks. snd c \<noteq> t \<and> (\<exists>b. fs (snd c) = Some (File b))"
    and "is_dir fs (parent t)" and "\<not> is_dir fs t"
  shows "raw_concatenation chunks t fs =
           (Inr (), fs(t \<mapsto> File (concat (map (\<lambda>c. file_bytes fs (snd c)) chunks))))"
proof -
  let ?fs0 = "fs(t \<mapsto> File [])"
  have o: "open_wb fs t = Inr ?fs0"
    using assms(2,3) by (auto simp: open_wb_def is_dir_def split: option.splits node.splits)
  have "write_chunks t chunks ?fs0 =
          (Inr (), ?fs0(t \<mapsto> File ([] @ concat (map (\<lambda>c. file_bytes ?fs0 (snd c)) chunks))))"
    using assms(1) by (intro write_chunks_content) auto
  moreover have "map (\<lambda>c. file_bytes ?fs0 (snd c)) chunks = map (\<lambda>c. file_bytes fs (snd c)) chunks"
    using assms(1) by (intro map_cong) (auto simp: file_bytes_def)
  ultimately show ?thesis
    using o by (simp add: raw_concatenation_def)
qed

lemma raw_concatenation_ok_not_dir:
  "raw_concatenation chunks t fs = (Inr u, fs1) \<Longrightarrow> fs t \<noteq> Some Dir"
  by (auto simp: raw_concatenation_def open_wb_def split: sum.splits option.splits node.splits)

section \<open>The intermediate is removed\<close>

lemma remove_temp_ok: "files w t \<noteq> Some Dir \<Longrightarrow> fst (remove_temp t w) = Inr ()"
  by (auto simp: remove_temp_def unlink_def path_exists_def split: option.splits node.splits)

lemma remove_temp_files:
  "files w t \<noteq> Some Dir \<Longrightarrow> remove_temp t w = (Inr (), w\<lparr>files := (files w)(t := None)\<rparr>)"
  by (auto simp: remove_temp_def unlink_def path_exists_def fun_upd_idem
      split: option.splits node.splits)

lemma concatenate_try_not_dir:
  "files w t \<noteq> Some Dir \<Longrightarrow> files (snd (concatenate_try proc chunks t out w)) t \<noteq> Some Dir"
  by (simp add: concatenate_try_dir)

lemma concatenate_raw_chunks_handler:
  assumes "chunks \<noteq> []" and "with_suffix out ''.temp.webm'' = Inr t"
    and "files w t \<noteq> Some Dir"
    and "fst (concatenate_try proc chunks t out w) = Inl e"
  shows "fst (concatenate_raw_chunks proc chunks out w) = Inr False"
proof -
  obtain w1 where t: "concatenate_try proc chunks t out w = (Inl e, w1)"
    using assms(4) by (cases "concatenate_try proc chunks t out w") auto
  have "files w1 t \<noteq> Some Dir"
    using concatenate_try_not_dir [OF assms(3), of proc chunks out] t by simp
  then have "fst (remove_temp t w1) = Inr ()" by (rule remove_temp_ok)
  then obtain w2 where "remove_temp t w1 = (Inr (), w2)"
    by (cases "remove_temp t w1") auto
  with assms(1,2) t show ?thesis by (simp add: concatenate_raw_chunks_def)
qed

section \<open>Facts about the concrete installation\<close>

lemma str_nat_nonempty: "str_nat n \<noteq> []"
  by (subst str_nat.simps) simp

lemma digit_char_zero: "d < 10 \<Longrightarrow> (digit_char d = CHR ''0'') = (d = 0)"
proof -
  assume d: "d < 10"
  have "(digit_char d = CHR ''0'') = (of_char (digit_char d) = (of_char CHR ''0'' :: nat))"
    by (simp only: of_char_eq_iff)
  also have "\<dots> = (d = 0)"
    using d by (simp add: digit_char_def)
  finally show ?thesis .
qed

lemma str_nat_zero: "(str_nat n = ''0'') = (n = 0)"
proof (cases "n < 10")
  case True
  then show ?thesis by (subst str_nat.simps) (simp add: digit_char_zero)
next
  case False
  then have "str_nat n = str_nat (n div 10) @ [digit_char (n mod 10)]"
    by (subst str_nat.simps) simp
  with False str_nat_nonempty [of "n div 10"] show ?thesis by auto
qed

lemma chunk_name_zero: "(str_nat n @ ''.webm'' = ''0.webm'') = (n = 0)"
proof -
  have "(str_nat n @ ''.webm'' = ''0'' @ ''.webm'') = (str_nat n = ''0'')"
    by (rule append_same_eq)
  then show ?thesis by (simp add: str_nat_zero)
qed

lemma filter_eq_upt: "k < n \<Longrightarrow> filter (\<lambda>i. i = k) [0..<n] = [k]"
proof (induction n)
  case 0
  then show ?case by simp
next
  case (Suc n)
  show ?case
  proof (cases "k < n")
    case True
    with Suc show ?thesis by simp
  next
    case False
    with Suc.prems have "k = n" by simp
    moreover have "filter (\<lambda>i. i = n) [0..<n] = []" by (simp add: filter_empty_conv)
    ultimately show ?thesis by simp
  qed
qed

lemma existing_chunks_single:
  assumes "\<And>i. path_exists fs (chunk_file d kind i) = (i = 0)"
  shows "existing_chunks fs d kind = [(0, chunk_file d kind 0)]"
  by (simp add: existing_chunks_def assms filter_eq_upt)

lemma existing_chunks_none:
  assumes "\<And>i. \<not> path_exists fs (chunk_file d kind i)"
  shows "existing_chunks fs d kind = []"
  by (simp add: existing_chunks_def assms)

lemma ex_video_chunks:
  "existing_chunks ex_files [''in'', ''video''] ''video'' =
     [(0, [''in'', ''video'', ''video_0.webm''])]"
proof -
  have "path_exists ex_files (chunk_file [''in'', ''video''] ''video'' i) = (i = 0)" for i
    by (simp add: path_exists_def ex_files_def ex_dirs_def chunk_file_def joinpath_def
        chunk_name_zero)
  then have "existing_chunks ex_files [''in'', ''video''] ''video'' =
      [(0, chunk_file [''in'', ''video''] ''video'' 0)]"
    by (rule existing_chunks_single)
  moreover have "str_nat 0 = ''0''" by (simp add: str_nat_zero)
  ultimately show ?thesis by (simp add: chunk_file_def joinpath_def)
qed

lemma ex_audio_chunks:
  "existing_chunks ex_files [''in'', ''audio''] ''audio'' =
     [(0, [''in'', ''audio'', ''audio_0.webm''])]"
proof -
  have "path_exists ex_files (chunk_file [''in'', ''audio''] ''audio'' i) = (i = 0)" for i
    by (simp add: path_exists_def ex_files_def ex_dirs_def chunk_file_def joinpath_def
        chunk_name_zero)
  then have "existing_chunks ex_files [''in'', ''audio''] ''audio'' =
      [(0, chunk_file [''in'', ''audio''] ''audio'' 0)]"
    by (rule existing_chunks_single)
  moreover have "str_nat 0 = ''0''" by (simp add: str_nat_zero)
  ultimately show ?thesis by (simp add: chunk_file_def joinpath_def)
qed

lemma ex_find_chunk_sequences:
  "find_chunk_sequences ex_self ex_files =
     ([(0, [''in'', ''video'', ''video_0.webm''])], [(0, [''in'', ''audio'', ''audio_0.webm''])])"
  by (simp add: find_chunk_sequences_eq ex_self_def ex_video_chunks ex_audio_chunks)

lemma ex_no_chunks: "find_chunk_sequences ex_self ex_dirs = ([], [])"
proof -
  have "\<not> path_exists ex_dirs (chunk_file [''in'', k] k i)" for k i
    by (simp add: path_exists_def ex_dirs_def chunk_file_def joinpath_def)
  then show ?thesis
    by (simp add: find_chunk_sequences_eq ex_self_def existing_chunks_none)
qed

lemma ex_mkdtemp:
  "mkdtemp ex_temp_names ex_files = Inr (ex_temp_dir, ex_files(ex_temp_dir \<mapsto> Dir))"
  by (simp add: ex_temp_names_def ex_temp_dir_def os_mkdir_def parent_def ex_files_def ex_dirs_def)

lemma ex_video_temp:
  "with_suffix [''tmp'', ''tmpa1b2'', ''video_concatenated.webm''] ''.temp.webm''
     = Inr [''tmp'', ''tmpa1b2'', ''video_concatenated.temp.webm'']"
  by (simp add: with_suffix_def name_of_def suffix_of_def)

lemma ex_audio_temp:
  "with_suffix [''tmp'', ''tmpa1b2'', ''audio_concatenated.webm''] ''.temp.webm''
     = Inr [''tmp'', ''tmpa1b2'', ''audio_concatenated.temp.webm'']"
  by (simp add: with_suffix_def name_of_def suffix_of_def)

lemma ex_strftime: "strftime ex_time = ''2025-06-28_09-05-00''"
  by code_simp

section \<open>The steps of a run\<close>

lemma concatenate_raw_chunks_cases:
  assumes "chunks \<noteq> []" and "with_suffix out ''.temp.webm'' = Inr t"
    and "files w t \<noteq> Some Dir"
  shows "concatenate_raw_chunks proc chunks out w =
     (case concatenate_try proc chunks t out w of
        (Inr b, w1) \<Rightarrow> (Inr b, w1)
      | (Inl e, w1) \<Rightarrow> (Inr False, w1\<lparr>files := (files w1)(t := None)\<rparr>))"
proof -
  obtain r w1 where t: "concatenate_try proc chunks t out w = (r, w1)"
    by (cases "concatenate_try proc chunks t out w")
  have "files w1 t \<noteq> Some Dir"
    using concatenate_try_not_dir [OF assms(3), of proc chunks out] t by simp
  then have "remove_temp t w1 = (Inr (), w1\<lparr>files := (files w1)(t := None)\<rparr>)"
    by (rule remove_temp_files)
  with assms(1,2) t show ?thesis
    by (cases r) (simp_all add: concatenate_raw_chunks_def)
qed

lemma os_mkdir_result: "os_mkdir fs p = Inr fs' \<Longrightarrow> fs p = None \<and> fs' = fs(p \<mapsto> Dir)"
  by (auto simp: os_mkdir_def split: option.splits node.splits)

lemma mkdtemp_result:
  "mkdtemp names fs = Inr (d, fs1) \<Longrightarrow> fs d = None \<and> fs1 = fs(d \<mapsto> Dir) \<and> d \<in> set names"
proof (induction names)
  case Nil
  then show ?case by simp
next
  case (Cons c names)
  show ?case
  proof (cases "os_mkdir fs c")
    case (Inl e)
    with Cons show ?thesis by (auto split: if_splits)
  next
    case (Inr fs')
    with Cons.prems os_mkdir_result [OF Inr] show ?thesis by auto
  qed
qed

lemma process_in_tempdir_video_failed:
  "concatenate_raw_chunks proc vc (joinpath d ''video_concatenated.webm'') w = (Inr False, w1) \<Longrightarrow>
   process_in_tempdir proc self vc ac s d w = (Inr (None, None), w1)"
  by (simp add: process_in_tempdir_def)

lemma process_in_tempdir_video_ok:
  "concatenate_raw_chunks proc vc (joinpath d ''video_concatenated.webm'') w = (Inr True, w1) \<Longrightarrow>
   concatenate_audio proc ac d w1 = (Inr a, w2) \<Longrightarrow>
   process_in_tempdir proc self vc ac s d w =
     finish_run proc self (joinpath d ''video_concatenated.webm'') a s w2"
  by (simp add: process_in_tempdir_def)

lemma process_chunks_run:
  assumes "find_chunk_sequences self (files w) = (vc, ac)" and "vc \<noteq> []"
    and "mkdtemp names (files w) = Inr (d, fs1)"
    and "process_in_tempdir proc self vc ac s d (w\<lparr>files := fs1\<rparr>) = (r, w2)"
  shows "process_chunks proc names self s w =
           (r, w2\<lparr>files := (\<lambda>p. if prefix d p then None else files w2 p)\<rparr>)"
proof -
  have "fs1 d = Some Dir"
    using mkdtemp_result [OF assms(3)] by simp
  then have "files w2 d = Some Dir"
    using process_in_tempdir_dir [of proc self vc ac s d "w\<lparr>files := fs1\<rparr>" d] assms(4) by simp
  then show ?thesis
    using assms by (simp add: process_chunks_def rmtree_def)
qed

section \<open>Exceptions that leave \<^verbatim>\<open>concatenate_raw_chunks\<close>\<close>

lemma ex_raw_video:
  "raw_concatenation [(0, [''in'', ''video'', ''video_0.webm''])]
      [''tmp'', ''tmpa1b2'', ''video_concatenated.temp.webm''] (files ex_run_world)
   = (Inr (), (files ex_run_world)
        ([''tmp'', ''tmpa1b2'', ''video_concatenated.temp.webm''] \<mapsto> File [26, 69]))"
  by (simp add: raw_concatenation_def open_wb_def read_bytes_def append_bytes_def parent_def
      ex_run_world_def ex_files_def ex_dirs_def ex_temp_dir_def)

text \<open>
  C10, as stated, fails: when the path of the raw intermediate is a directory,
  \<^verbatim>\<open>open\<close> raises inside the \<^verbatim>\<open>try\<close>, and the \<^verbatim>\<open>unlink\<close> of the handler raises again;
  and for an output path with an empty name \<^verbatim>\<open>with_suffix\<close> raises before the \<^verbatim>\<open>try\<close>.
\<close>

theorem concatenate_raw_chunks_raises:
  "fst (concatenate_raw_chunks failing_ffmpeg [(0, [''in'', ''video'', ''video_0.webm''])]
          [''tmp'', ''tmpa1b2'', ''video_concatenated.webm'']
          (ex_run_world\<lparr>files := (files ex_run_world)
              ([''tmp'', ''tmpa1b2'', ''video_concatenated.temp.webm''] \<mapsto> Dir)\<rparr>))
     = Inl IsADirectoryError
   \<and> fst (concatenate_raw_chunks failing_ffmpeg [(0, [''in'', ''video'', ''video_0.webm''])] []
          ex_run_world) = Inl ValueError"
proof -
  have "with_suffix [] ''.temp.webm'' = Inl ValueError"
    by (simp add: with_suffix_def name_of_def)
  then show ?thesis
    by (simp add: concatenate_raw_chunks_def ex_video_temp concatenate_try_def
        raw_concatenation_def open_wb_def remove_temp_def path_exists_def unlink_def)
qed

section \<open>Exceptions, console output and permissions\<close>

lemma print_quiet: "print quiet m = Inr ()"
  by (simp add: print_def quiet_def)

lemma run_ffmpeg_in_quiet: "run_ffmpeg_in quiet proc command description w = run_ffmpeg proc command w"
  by (simp add: run_ffmpeg_in_def run_ffmpeg_def print_quiet split: proc_result.splits)

lemma read_bytes_in_quiet: "read_bytes_in quiet fs p = read_bytes fs p"
  by (simp add: read_bytes_in_def quiet_def)

lemma open_wb_in_quiet: "open_wb_in quiet fs p = open_wb fs p"
  by (simp add: open_wb_in_def quiet_def)

lemma write_chunks_in_quiet:
  "write_chunks_in quiet chunk_type t chunks fs = write_chunks t chunks fs"
  by (induction t chunks fs rule: write_chunks.induct)
     (simp_all add: print_quiet read_bytes_in_quiet split: sum.splits)

lemma raw_concatenation_in_quiet:
  "raw_concatenation_in quiet chunk_type chunks t fs = raw_concatenation chunks t fs"
  by (simp add: raw_concatenation_in_def raw_concatenation_def open_wb_in_quiet
      write_chunks_in_quiet split: sum.splits)

lemma remove_temp_in_quiet: "remove_temp_in quiet t w = remove_temp t w"
  by (simp add: remove_temp_in_def remove_temp_def exists_in_def unlink_in_def unlink_def
      path_exists_def quiet_def split: option.splits node.splits)

lemma concatenate_try_in_quiet:
  "concatenate_try_in quiet proc chunks t out chunk_type w = concatenate_try proc chunks t out w"
  by (simp add: concatenate_try_in_def concatenate_try_def raw_concatenation_in_quiet
      print_quiet run_ffmpeg_in_quiet remove_temp_in_quiet split: sum.splits prod.splits)

lemma concatenate_raw_chunks_in_quiet:
  "concatenate_raw_chunks_in quiet proc chunks out chunk_type w
     = concatenate_raw_chunks proc chunks out w"
  by (simp add: concatenate_raw_chunks_in_def concatenate_raw_chunks_def print_quiet
      concatenate_try_in_quiet remove_temp_in_quiet split: sum.splits prod.splits)

lemma run_ffmpeg_in_dir:
  "(files (snd (run_ffmpeg_in env proc command description w)) p = Some Dir)
     = (files w p = Some Dir)"
  by (simp add: run_ffmpeg_in_def after_process_def foldl_write_file_dir
      split: sum.splits proc_result.splits)

lemma write_chunks_in_dir:
  "(snd (write_chunks_in env chunk_type t chunks fs) p = Some Dir) = (fs p = Some Dir)"
  by (induction env chunk_type t chunks fs rule: write_chunks_in.induct)
     (simp_all add: append_bytes_dir split: sum.splits)

lemma raw_concatenation_in_dir:
  "(snd (raw_concatenation_in env chunk_type chunks t fs) p = Some Dir) = (fs p = Some Dir)"
  by (auto simp: raw_concatenation_in_def open_wb_in_def write_chunks_in_dir open_wb_dir
      split: sum.splits option.splits)

lemma remove_temp_in_dir:
  "(files (snd (remove_temp_in env t w)) p = Some Dir) = (files w p = Some Dir)"
  by (auto simp: remove_temp_in_def exists_in_def unlink_in_def
      split: option.splits node.splits sum.splits if_splits)

lemma concatenate_try_in_dir:
  "(files (snd (concatenate_try_in env proc chunks t out chunk_type w)) p = Some Dir)
     = (files w p = Some Dir)"
proof -
  let ?d = "''Fixing concatenated '' @ chunk_type @ '' file''"
  obtain r1 fs1 where r1: "raw_concatenation_in env chunk_type chunks t (files w) = (r1, fs1)"
    by (cases "raw_concatenation_in env chunk_type chunks t (files w)")
  have d1: "(fs1 p = Some Dir) = (files w p = Some Dir)"
    using raw_concatenation_in_dir [of env chunk_type chunks t "files w" p] r1 by simp
  obtain r2 w2 where r2:
    "run_ffmpeg_in env proc (repair_command t out) ?d (w\<lparr>files := fs1\<rparr>) = (r2, w2)"
    by (cases "run_ffmpeg_in env proc (repair_command t out) ?d (w\<lparr>files := fs1\<rparr>)")
  have d2: "(files w2 p = Some Dir) = (fs1 p = Some Dir)"
    using run_ffmpeg_in_dir [of env proc "repair_command t out" ?d "w\<lparr>files := fs1\<rparr>" p] r2
    by simp
  obtain r3 w3 where r3: "remove_temp_in env t w2 = (r3, w3)"
    by (cases "remove_temp_in env t w2")
  have d3: "(files w3 p = Some Dir) = (files w2 p = Some Dir)"
    using remove_temp_in_dir [of env t w2 p] r3 by simp
  show ?thesis
    using r1 r2 r3 d1 d2 d3
    by (auto simp: concatenate_try_in_def split: sum.splits prod.splits)
qed

lemma remove_temp_in_permitted:
  assumes "stat_failure env t = None" and "\<not> removal_denied env t"
    and "files w t \<noteq> Some Dir"
  shows "\<exists>w'. remove_temp_in env t w = (Inr (), w')"
  using assms
  by (auto simp: remove_temp_in_def exists_in_def unlink_in_def path_exists_def
      split: option.splits node.splits)

text \<open>With a working console and an intermediate that can be examined and removed, the
  function returns a boolean, and \<^verbatim>\<open>False\<close> after an exception in the \<^verbatim>\<open>try\<close>.\<close>

lemma concatenate_raw_chunks_in_permitted:
  assumes c: "\<And>m. console env m = None"
    and ws: "with_suffix out ''.temp.webm'' = Inr t"
    and nd: "files w t \<noteq> Some Dir"
    and st: "stat_failure env t = None" and rm: "\<not> removal_denied env t"
  shows "(\<exists>b. fst (concatenate_raw_chunks_in env proc chunks out chunk_type w) = Inr b)
    \<and> (chunks \<noteq> [] \<and> (\<exists>e. fst (concatenate_try_in env proc chunks t out chunk_type w) = Inl e)
         \<longrightarrow> fst (concatenate_raw_chunks_in env proc chunks out chunk_type w) = Inr False)"
proof (cases "chunks = []")
  case True
  then show ?thesis by (auto simp: concatenate_raw_chunks_in_def)
next
  case False
  have p: "print env m = Inr ()" for m
    by (simp add: print_def c)
  obtain r w1 where t: "concatenate_try_in env proc chunks t out chunk_type w = (r, w1)"
    by (cases "concatenate_try_in env proc chunks t out chunk_type w")
  have "files w1 t \<noteq> Some Dir"
    using concatenate_try_in_dir [of env proc chunks t out chunk_type w t] t nd by simp
  then obtain w2 where "remove_temp_in env t w1 = (Inr (), w2)"
    using remove_temp_in_permitted [OF st rm] by blast
  with False ws t p show ?thesis
    by (cases r) (auto simp: concatenate_raw_chunks_in_def)
qed

text \<open>Where an exception that leaves the function comes from.\<close>

lemma concatenate_raw_chunks_in_escapes:
  assumes "fst (concatenate_raw_chunks_in env proc chunks out chunk_type w) = Inl x"
  shows "chunks \<noteq> []
    \<and> (console env (Concatenating (length chunks) chunk_type) = Some x
       \<or> with_suffix out ''.temp.webm'' = Inl x
       \<or> (\<exists>t e w1. with_suffix out ''.temp.webm'' = Inr t
             \<and> concatenate_try_in env proc chunks t out chunk_type w = (Inl e, w1)
             \<and> (console env (Error_during_raw_concatenation e) = Some x
                \<or> fst (remove_temp_in env t w1) = Inl x)))"
proof -
  have ne: "chunks \<noteq> []"
    using assms by (auto simp: concatenate_raw_chunks_in_def)
  show ?thesis
  proof (cases "console env (Concatenating (length chunks) chunk_type)")
    case (Some e)
    with assms ne show ?thesis by (simp add: concatenate_raw_chunks_in_def print_def)
  next
    case None
    show ?thesis
    proof (cases "with_suffix out ''.temp.webm''")
      case (Inl e)
      with assms ne None show ?thesis by (simp add: concatenate_raw_chunks_in_def print_def)
    next
      case (Inr t)
      obtain r w1 where t: "concatenate_try_in env proc chunks t out chunk_type w = (r, w1)"
        by (cases "concatenate_try_in env proc chunks t out chunk_type w")
      show ?thesis
      proof (cases r)
        case (Inr b)
        with assms ne None \<open>with_suffix out ''.temp.webm'' = Inr t\<close> t show ?thesis
          by (simp add: concatenate_raw_chunks_in_def print_def)
      next
        case (Inl e)
        obtain r2 w2 where r2: "remove_temp_in env t w1 = (r2, w2)"
          by (cases "remove_temp_in env t w1")
        from assms ne None \<open>with_suffix out ''.temp.webm'' = Inr t\<close> t Inl r2
        have "console env (Error_during_raw_concatenation e) = Some x \<or> r2 = Inl x"
          by (auto simp: concatenate_raw_chunks_in_def print_def split: option.splits sum.splits)
        with ne \<open>with_suffix out ''.temp.webm'' = Inr t\<close> t Inl r2 show ?thesis
          by auto
      qed
    qed
  qed
qed

lemma concatenate_raw_chunks_in_caught:
  assumes "chunks \<noteq> []"
    and "console env (Concatenating (length chunks) chunk_type) = None"
    and "with_suffix out ''.temp.webm'' = Inr t"
    and "concatenate_try_in env proc chunks t out chunk_type w = (Inl e, w1)"
    and "console env (Error_during_raw_concatenation e) = None"
    and "remove_temp_in env t w1 = (Inr (), w2)"
  shows "concatenate_raw_chunks_in env proc chunks out chunk_type w = (Inr False, w2)"
  using assms by (simp add: concatenate_raw_chunks_in_def print_def)

text \<open>
  C10, amended. \<^verbatim>\<open>concatenate_raw_chunks\<close> returns \<^verbatim>\<open>False\<close> for an empty sequence
  before anything is printed or written. For a non-empty sequence an exception raised
  inside the \<^verbatim>\<open>try\<close> (by a \<^verbatim>\<open>print\<close>, by opening or reading a file, by starting the
  repair command or by removing the intermediate) is caught, and the function returns
  \<^verbatim>\<open>False\<close> when the handler's own \<^verbatim>\<open>print\<close>, \<^verbatim>\<open>exists\<close> and \<^verbatim>\<open>unlink\<close> succeed. An
  exception leaves the function only from the \<^verbatim>\<open>print\<close> or the \<^verbatim>\<open>with_suffix\<close> before
  the \<^verbatim>\<open>try\<close>, or from the handler. So the function returns a boolean whenever the
  console works, the output path has a name, and the intermediate is not a directory,
  can be examined and may be removed; with nothing denied it is the function of the
  sections above.
\<close>

theorem concatenate_raw_chunks_exceptions:
  "concatenate_raw_chunks_in env proc [] output_path chunk_type w = (Inr False, w)
   \<and> concatenate_raw_chunks_in quiet proc chunks output_path chunk_type w
       = concatenate_raw_chunks proc chunks output_path w
   \<and> ((\<forall>m. console env m = None) \<and> with_suffix output_path ''.temp.webm'' = Inr temp
        \<and> files w temp \<noteq> Some Dir \<and> stat_failure env temp = None \<and> \<not> removal_denied env temp
       \<longrightarrow> (\<exists>b. fst (concatenate_raw_chunks_in env proc chunks output_path chunk_type w) = Inr b)
         \<and> (chunks \<noteq> []
              \<and> (\<exists>e. fst (concatenate_try_in env proc chunks temp output_path chunk_type w) = Inl e)
            \<longrightarrow> fst (concatenate_raw_chunks_in env proc chunks output_path chunk_type w)
                  = Inr False))
   \<and> (chunks1 \<noteq> [] \<and> console env1 (Concatenating (length chunks1) chunk_type1) = None
        \<and> with_suffix output_path1 ''.temp.webm'' = Inr temp1
        \<and> concatenate_try_in env1 proc1 chunks1 temp1 output_path1 chunk_type1 w1 = (Inl e1, w1')
        \<and> console env1 (Error_during_raw_concatenation e1) = None
        \<and> remove_temp_in env1 temp1 w1' = (Inr (), w1'')
       \<longrightarrow> concatenate_raw_chunks_in env1 proc1 chunks1 output_path1 chunk_type1 w1
             = (Inr False, w1''))
   \<and> (fst (concatenate_raw_chunks_in env2 proc2 chunks2 output_path2 chunk_type2 w2) = Inl x
       \<longrightarrow> chunks2 \<noteq> []
         \<and> (console env2 (Concatenating (length chunks2) chunk_type2) = Some x
            \<or> with_suffix output_path2 ''.temp.webm'' = Inl x
            \<or> (\<exists>t e w'. with_suffix output_path2 ''.temp.webm'' = Inr t
                  \<and> concatenate_try_in env2 proc2 chunks2 t output_path2 chunk_type2 w2 = (Inl e, w')
                  \<and> (console env2 (Error_during_raw_concatenation e) = Some x
                     \<or> fst (remove_temp_in env2 t w') = Inl x))))"
proof -
  have a: "concatenate_raw_chunks_in env proc [] output_path chunk_type w = (Inr False, w)"
    by (simp add: concatenate_raw_chunks_in_def)
  have b: "(\<exists>b. fst (concatenate_raw_chunks_in env proc chunks output_path chunk_type w) = Inr b)
         \<and> (chunks \<noteq> []
              \<and> (\<exists>e. fst (concatenate_try_in env proc chunks temp output_path chunk_type w) = Inl e)
            \<longrightarrow> fst (concatenate_raw_chunks_in env proc chunks output_path chunk_type w)
                  = Inr False)"
    if "\<forall>m. console env m = None" and "with_suffix output_path ''.temp.webm'' = Inr temp"
      and "files w temp \<noteq> Some Dir" and "stat_failure env temp = None"
      and "\<not> removal_denied env temp"
    using that by (intro concatenate_raw_chunks_in_permitted) simp_all
  show ?thesis
    using a b concatenate_raw_chunks_in_quiet [of proc chunks output_path chunk_type w]
      concatenate_raw_chunks_in_caught [of chunks1 env1 chunk_type1 output_path1 temp1 proc1 w1
        e1 w1' w1'']
      concatenate_raw_chunks_in_escapes [of env2 proc2 chunks2 output_path2 chunk_type2 w2 x]
    by blast
qed

text \<open>C10, amended, on three runs at the concrete installation. Nothing is denied and
  the fragment is missing: \<^verbatim>\<open>False\<close>. The fragment may not be opened: the
  \<^verbatim>\<open>PermissionError\<close> is caught, the empty intermediate is removed: \<^verbatim>\<open>False\<close>. The
  fragment is missing and the intermediate may not be removed: the \<^verbatim>\<open>PermissionError\<close>
  of the handler's \<^verbatim>\<open>unlink\<close> leaves the function.\<close>

theorem concatenate_raw_chunks_exceptions_witness:
  "fst (concatenate_raw_chunks_in quiet failing_ffmpeg [(7, [''in'', ''video'', ''video_7.webm''])]
          [''tmp'', ''tmpa1b2'', ''video_concatenated.webm''] ''video'' ex_run_world) = Inr False
   \<and> fst (concatenate_raw_chunks_in
          (quiet\<lparr>open_failure := (\<lambda>p. if p = [''in'', ''video'', ''video_0.webm'']
                                      then Some PermissionError else None)\<rparr>)
          failing_ffmpeg [(0, [''in'', ''video'', ''video_0.webm''])]
          [''tmp'', ''tmpa1b2'', ''video_concatenated.webm''] ''video'' ex_run_world) = Inr False
   \<and> fst (concatenate_raw_chunks_in (quiet\<lparr>removal_denied := (\<lambda>p. True)\<rparr>) failing_ffmpeg
          [(7, [''in'', ''video'', ''video_7.webm''])]
          [''tmp'', ''tmpa1b2'', ''video_concatenated.webm''] ''video'' ex_run_world)
       = Inl PermissionError
   \<and> fst (remove_temp_in (quiet\<lparr>removal_denied := (\<lambda>p. True)\<rparr>)
          [''tmp'', ''tmpa1b2'', ''video_concatenated.temp.webm'']
          (ex_run_world\<lparr>files := (files ex_run_world)
              ([''tmp'', ''tmpa1b2'', ''video_concatenated.temp.webm''] \<mapsto> File [])\<rparr>))
       = Inl PermissionError"
proof -
  let ?out = "[''tmp'', ''tmpa1b2'', ''video_concatenated.webm'']"
  let ?t = "[''tmp'', ''tmpa1b2'', ''video_concatenated.temp.webm'']"
  let ?v0 = "[''in'', ''video'', ''video_0.webm'']"
  let ?w1 = "ex_run_world\<lparr>files := (files ex_run_world)(?t \<mapsto> File [])\<rparr>"
  let ?unreadable = "quiet\<lparr>open_failure := (\<lambda>p. if p = ?v0 then Some PermissionError else None)\<rparr>"
  let ?denied = "quiet\<lparr>removal_denied := (\<lambda>p. True)\<rparr>"
  have nd: "files ex_run_world ?t \<noteq> Some Dir"
    by (simp add: ex_run_world_def ex_files_def ex_dirs_def ex_temp_dir_def)
  have t0: "fst (concatenate_try_in quiet failing_ffmpeg [(7, [''in'', ''video'', ''video_7.webm''])]
      ?t ?out ''video'' ex_run_world) = Inl FileNotFoundError"
    by (simp add: concatenate_try_in_quiet concatenate_try_def raw_concatenation_def open_wb_def
        read_bytes_def parent_def ex_run_world_def ex_files_def ex_dirs_def ex_temp_dir_def)
  have t1: "concatenate_try_in ?unreadable failing_ffmpeg [(0, ?v0)] ?t ?out ''video'' ex_run_world
      = (Inl PermissionError, ?w1)"
    by (simp add: concatenate_try_in_def raw_concatenation_in_def open_wb_in_def open_wb_def
        print_def read_bytes_in_def quiet_def parent_def ex_run_world_def ex_files_def ex_dirs_def
        ex_temp_dir_def)
  have r1: "remove_temp_in ?unreadable ?t ?w1 = (Inr (), ?w1\<lparr>files := (files ?w1)(?t := None)\<rparr>)"
    by (simp add: remove_temp_in_def exists_in_def unlink_in_def path_exists_def quiet_def)
  have t2: "concatenate_try_in ?denied failing_ffmpeg [(7, [''in'', ''video'', ''video_7.webm''])]
      ?t ?out ''video'' ex_run_world = (Inl FileNotFoundError, ?w1)"
    by (simp add: concatenate_try_in_def raw_concatenation_in_def open_wb_in_def open_wb_def
        print_def read_bytes_in_def read_bytes_def quiet_def parent_def ex_run_world_def
        ex_files_def ex_dirs_def ex_temp_dir_def)
  have r2: "fst (remove_temp_in ?denied ?t ?w1) = Inl PermissionError"
    by (simp add: remove_temp_in_def exists_in_def unlink_in_def path_exists_def quiet_def)
  have e2: "fst (concatenate_raw_chunks_in ?denied failing_ffmpeg
      [(7, [''in'', ''video'', ''video_7.webm''])] ?out ''video'' ex_run_world) = Inl PermissionError"
    using t2 r2
    by (auto simp: concatenate_raw_chunks_in_def ex_video_temp print_def quiet_def
        split: prod.splits sum.splits)
  show ?thesis
    using concatenate_raw_chunks_exceptions [where env = quiet and proc = failing_ffmpeg
        and chunks = "[(7, [''in'', ''video'', ''video_7.webm''])]" and output_path = ?out
        and chunk_type = "''video''" and w = ex_run_world and temp = ?t
        and ?env1.0 = ?unreadable and ?proc1.0 = failing_ffmpeg and ?chunks1.0 = "[(0, ?v0)]"
        and ?output_path1.0 = ?out and ?chunk_type1.0 = "''video''" and ?w1.0 = ex_run_world
        and ?temp1.0 = ?t and ?e1.0 = PermissionError and w1' = ?w1
        and w1'' = "?w1\<lparr>files := (files ?w1)(?t := None)\<rparr>"
        and ?env2.0 = ?denied and ?proc2.0 = failing_ffmpeg
        and ?chunks2.0 = "[(7, [''in'', ''video'', ''video_7.webm''])]" and ?output_path2.0 = ?out
        and ?chunk_type2.0 = "''video''" and ?w2.0 = ex_run_world and x = PermissionError]
      ex_video_temp nd t0 t1 r1 e2 r2
    by (auto simp: quiet_def)
qed

section \<open>The raw intermediate as the repair command finds it\<close>

lemma concatenate_raw_chunks_after_raw:
  assumes "chunks \<noteq> []" and "with_suffix out ''.temp.webm'' = Inr t"
    and "raw_concatenation chunks t (files w) = (Inr (), fs1)"
  shows "fst (concatenate_raw_chunks proc chunks out w) =
     (case fst (run_ffmpeg proc (repair_command t out) (w\<lparr>files := fs1\<rparr>)) of
        Inl e \<Rightarrow> Inr False
      | Inr (success, output) \<Rightarrow> Inr success)"
proof -
  have nd: "files w t \<noteq> Some Dir"
    using assms(3) by (rule raw_concatenation_ok_not_dir)
  have nd1: "fs1 t \<noteq> Some Dir"
    using raw_concatenation_dir [of chunks t "files w" t] assms(3) nd by simp
  obtain r2 w2 where r2: "run_ffmpeg proc (repair_command t out) (w\<lparr>files := fs1\<rparr>) = (r2, w2)"
    by (cases "run_ffmpeg proc (repair_command t out) (w\<lparr>files := fs1\<rparr>)")
  have "files w2 t \<noteq> Some Dir"
    using run_ffmpeg_dir [of proc "repair_command t out" "w\<lparr>files := fs1\<rparr>" t] r2 nd1 by simp
  then have rm: "remove_temp t w2 = (Inr (), w2\<lparr>files := (files w2)(t := None)\<rparr>)"
    by (rule remove_temp_files)
  have "fst (concatenate_try proc chunks t out w) =
      (case r2 of Inl e \<Rightarrow> Inl e | Inr (success, output) \<Rightarrow> Inr success)"
    using assms(3) r2 rm by (simp add: concatenate_try_def split: sum.splits prod.splits)
  then show ?thesis
    using r2 by (auto simp: concatenate_raw_chunks_cases [OF assms(1,2) nd]
        split: sum.splits prod.splits)
qed

text \<open>
  C3. For a non-empty fragment sequence (strictly ascending indices, every fragment a
  regular file) \<^verbatim>\<open>concatenate_raw_chunks\<close> writes a raw intermediate whose content is
  the bytes of the fragments one after the other in ascending index order, nothing
  else in the file system being changed, and runs the repair command on exactly this
  state. The intermediate must be writable: its directory exists, and it is neither a
  directory nor one of the fragments.
\<close>

theorem raw_intermediate_is_concatenation:
  assumes "chunks \<noteq> []"
    and "sorted_wrt (<) (map fst chunks)"
    and "\<forall>c \<in> set chunks. (\<exists>b. files w (snd c) = Some (File b)) \<and> snd c \<noteq> temp"
    and "with_suffix output_path ''.temp.webm'' = Inr temp"
    and "is_dir (files w) (parent temp)" and "\<not> is_dir (files w) temp"
  shows "\<exists>fs1. raw_concatenation chunks temp (files w) = (Inr (), fs1)
      \<and> fs1 = (files w)(temp \<mapsto>
            File (concat (map (\<lambda>c. file_bytes (files w) (snd c)) (sort_key fst chunks))))
      \<and> fst (concatenate_raw_chunks proc chunks output_path w) =
          (case fst (run_ffmpeg proc (repair_command temp output_path) (w\<lparr>files := fs1\<rparr>)) of
             Inl e \<Rightarrow> Inr False
           | Inr (success, output) \<Rightarrow> Inr success)"
proof -
  let ?fs1 = "(files w)(temp \<mapsto> File (concat (map (\<lambda>c. file_bytes (files w) (snd c)) chunks)))"
  have "sorted (map fst chunks)"
    using assms(2) strict_sorted_imp_sorted by blast
  then have ordered: "sort_key fst chunks = chunks"
    by (rule sort_key_id_if_sorted)
  have raw: "raw_concatenation chunks temp (files w) = (Inr (), ?fs1)"
    using assms(3,5,6) by (intro raw_concatenation_content) auto
  show ?thesis
    using raw concatenate_raw_chunks_after_raw [OF assms(1,4) raw, of proc]
    by (simp add: ordered)
qed

text \<open>C3 on two fragments with a gap between their indices: the intermediate holds the
  two bytes of fragment 0 followed by the three bytes of fragment 2.\<close>

theorem raw_intermediate_is_concatenation_witness:
  "raw_concatenation
      [(0, [''in'', ''video'', ''video_0.webm'']), (2, [''in'', ''video'', ''video_2.webm''])]
      [''tmp'', ''tmpa1b2'', ''video_concatenated.temp.webm''] (files ex_gap_world)
    = (Inr (), (files ex_gap_world)
         ([''tmp'', ''tmpa1b2'', ''video_concatenated.temp.webm''] \<mapsto> File [26, 69, 7, 8, 9]))
   \<and> fst (concatenate_raw_chunks failing_ffmpeg
      [(0, [''in'', ''video'', ''video_0.webm'']), (2, [''in'', ''video'', ''video_2.webm''])]
      [''tmp'', ''tmpa1b2'', ''video_concatenated.webm''] ex_gap_world) = Inr False"
proof -
  let ?chunks = "[(0::nat, [''in'', ''video'', ''video_0.webm'']),
                  (2, [''in'', ''video'', ''video_2.webm''])]"
  let ?t = "[''tmp'', ''tmpa1b2'', ''video_concatenated.temp.webm'']"
  have files: "files ex_gap_world =
      ex_files(ex_temp_dir \<mapsto> Dir, [''in'', ''video'', ''video_2.webm''] \<mapsto> File [7, 8, 9])"
    by (simp add: ex_gap_world_def ex_run_world_def)
  have h1: "?chunks \<noteq> []" by simp
  have h2: "sorted_wrt (<) (map fst ?chunks)" by simp
  have h3: "\<forall>c \<in> set ?chunks. (\<exists>b. files ex_gap_world (snd c) = Some (File b)) \<and> snd c \<noteq> ?t"
    by (simp add: files ex_files_def ex_dirs_def ex_temp_dir_def)
  have h5: "is_dir (files ex_gap_world) (parent ?t)"
    by (simp add: files is_dir_def parent_def ex_temp_dir_def)
  have h6: "\<not> is_dir (files ex_gap_world) ?t"
    by (simp add: files is_dir_def ex_files_def ex_dirs_def ex_temp_dir_def)
  have bytes: "concat (map (\<lambda>c. file_bytes (files ex_gap_world) (snd c)) (sort_key fst ?chunks))
      = [26, 69, 7, 8, 9]"
    by (simp add: files file_bytes_def ex_files_def ex_dirs_def ex_temp_dir_def)
  show ?thesis
    using raw_intermediate_is_concatenation [OF h1 h2 h3 ex_video_temp h5 h6, of failing_ffmpeg]
    unfolding bytes
    by (auto simp: run_ffmpeg_def failing_ffmpeg_def)
qed

section \<open>A run without video fragments\<close>

text \<open>
  C4. When the scan finds no video fragment, \<^verbatim>\<open>process_chunks\<close> returns
  \<^verbatim>\<open>(None, None)\<close> and leaves the world as it is, whatever the external program would
  do: nothing is concatenated, transcoded or muxed, and no temporary directory is made.
\<close>

theorem no_video_chunks_no_output:
  "fst (find_chunk_sequences self (files w)) = [] \<Longrightarrow>
   process_chunks proc temp_names self srt_path w = (Inr (None, None), w)"
  by (cases "find_chunk_sequences self (files w)") (simp add: process_chunks_def)

text \<open>C4 on the installation without fragments, with a program that would move the clock
  if it were run.\<close>

theorem no_video_chunks_no_output_witness:
  "process_chunks slow_ffmpeg ex_temp_names ex_self None \<lparr>files = ex_dirs, now = ex_time\<rparr>
     = (Inr (None, None), \<lparr>files = ex_dirs, now = ex_time\<rparr>)"
  using no_video_chunks_no_output [of ex_self "\<lparr>files = ex_dirs, now = ex_time\<rparr>"
      slow_ffmpeg ex_temp_names None]
  by (simp add: ex_no_chunks)

section \<open>Subtitles\<close>

text \<open>
  C7. With a subtitle path that does not exist, \<^verbatim>\<open>mux_video_audio_with_captions\<close>
  builds the same command, and so does the same, as with no subtitle path at all; a
  subtitle path that exists adds the subtitle input and its caption options in front of
  the last four arguments.
\<close>

theorem missing_subtitle_as_absent:
  "(\<not> path_exists (files w) s \<longrightarrow>
      mux_command (files w) v a (Some s) output = mux_command (files w) v a None output
      \<and> mux_video_audio_with_captions proc v a (Some s) output w
          = mux_video_audio_with_captions proc v a None output w)
   \<and> (path_exists (files w) s' \<longrightarrow>
      mux_command (files w) v a (Some s') output =
        take (length (mux_command (files w) v a None output) - 4)
          (mux_command (files w) v a None output)
        @ [''-i'', str_path s', ''-c:s'', ''mov_text'', ''-metadata:s:s:0'', ''language=eng'']
        @ drop (length (mux_command (files w) v a None output) - 4)
          (mux_command (files w) v a None output))"
  by (cases a) (simp_all add: mux_command_def mux_video_audio_with_captions_def)

text \<open>C7 with a subtitle file that is missing and with one that is present.\<close>

theorem missing_subtitle_as_absent_witness:
  "mux_command (files ex_run_world) [''v.webm''] None (Some [''subs'', ''talk.srt'']) [''o.mp4'']
     = [''ffmpeg'', ''-y'', ''-i'', ''v.webm'', ''-c:v'', ''libx264'', ''-preset'', ''medium'',
        ''-crf'', ''23'', ''-shortest'', ''-avoid_negative_ts'', ''make_zero'', ''o.mp4'']
   \<and> mux_command (files ex_run_world) [''v.webm''] None (Some [''in'']) [''o.mp4'']
     = [''ffmpeg'', ''-y'', ''-i'', ''v.webm'', ''-c:v'', ''libx264'', ''-preset'', ''medium'',
        ''-crf'', ''23'', ''-i'', ''in'', ''-c:s'', ''mov_text'', ''-metadata:s:s:0'',
        ''language=eng'', ''-shortest'', ''-avoid_negative_ts'', ''make_zero'', ''o.mp4'']"
proof -
  have a: "\<not> path_exists (files ex_run_world) [''subs'', ''talk.srt'']"
    by (simp add: path_exists_def ex_run_world_def ex_files_def ex_dirs_def ex_temp_dir_def)
  have b: "path_exists (files ex_run_world) [''in'']"
    by (simp add: path_exists_def ex_run_world_def ex_files_def ex_dirs_def ex_temp_dir_def)
  have c: "mux_command (files ex_run_world) [''v.webm''] None None [''o.mp4'']
     = [''ffmpeg'', ''-y'', ''-i'', ''v.webm'', ''-c:v'', ''libx264'', ''-preset'', ''medium'',
        ''-crf'', ''23'', ''-shortest'', ''-avoid_negative_ts'', ''make_zero'', ''o.mp4'']"
    by (simp add: mux_command_def str_path_def)
  show ?thesis
    using missing_subtitle_as_absent [of ex_run_world "[''subs'', ''talk.srt'']" "[''v.webm'']"
        None "[''o.mp4'']" no_ffmpeg "[''in'']"] a b
    unfolding c by (simp add: str_path_def)
qed

section \<open>Complete runs of the concatenation\<close>

lemma concatenate_raw_chunks_run:
  assumes "chunks \<noteq> []" and "with_suffix out ''.temp.webm'' = Inr t"
    and "raw_concatenation chunks t (files w) = (Inr (), fs1)"
    and "proc (repair_command t out) (w\<lparr>files := fs1\<rparr>) = Completed rc so se written tm"
  shows "concatenate_raw_chunks proc chunks out w =
           (Inr (rc = 0), \<lparr>files = (foldl write_file fs1 written)(t := None), now = tm\<rparr>)"
proof -
  have nd: "files w t \<noteq> Some Dir"
    using assms(3) by (rule raw_concatenation_ok_not_dir)
  have nd1: "fs1 t \<noteq> Some Dir"
    using raw_concatenation_dir [of chunks t "files w" t] assms(3) nd by simp
  let ?w2 = "after_process (w\<lparr>files := fs1\<rparr>) written tm"
  have r2: "run_ffmpeg proc (repair_command t out) (w\<lparr>files := fs1\<rparr>) =
      (if rc = 0 then Inr (True, so) else Inr (False, se), ?w2)"
    using assms(4) by (simp add: run_ffmpeg_def)
  have "files ?w2 t \<noteq> Some Dir"
    using nd1 by (simp add: after_process_def foldl_write_file_dir)
  then have rm: "remove_temp t ?w2 = (Inr (), ?w2\<lparr>files := (files ?w2)(t := None)\<rparr>)"
    by (rule remove_temp_files)
  have "concatenate_try proc chunks t out w = (Inr (rc = 0), ?w2\<lparr>files := (files ?w2)(t := None)\<rparr>)"
    using assms(3) r2 rm by (simp add: concatenate_try_def)
  then show ?thesis
    by (simp add: concatenate_raw_chunks_cases [OF assms(1,2) nd] after_process_def)
qed

lemma ex_raw_audio:
  "raw_concatenation [(0, [''in'', ''audio'', ''audio_0.webm''])]
      [''tmp'', ''tmpa1b2'', ''audio_concatenated.temp.webm''] (files ex_run_world)
   = (Inr (), (files ex_run_world)
        ([''tmp'', ''tmpa1b2'', ''audio_concatenated.temp.webm''] \<mapsto> File [79]))"
  by (simp add: raw_concatenation_def open_wb_def read_bytes_def append_bytes_def parent_def
      ex_run_world_def ex_files_def ex_dirs_def ex_temp_dir_def)

lemma ex_temp_absent:
  "files ex_run_world [''tmp'', ''tmpa1b2'', ''video_concatenated.temp.webm''] = None"
  "files ex_run_world [''tmp'', ''tmpa1b2'', ''audio_concatenated.temp.webm''] = None"
  by (simp_all add: ex_run_world_def ex_files_def ex_dirs_def ex_temp_dir_def)

text \<open>On the concrete installation a repair that writes nothing leaves the files as
  they were.\<close>

lemma ex_concatenate_video:
  assumes "proc (repair_command [''tmp'', ''tmpa1b2'', ''video_concatenated.temp.webm'']
                   [''tmp'', ''tmpa1b2'', ''video_concatenated.webm''])
             (ex_run_world\<lparr>now := tm0, files := (files ex_run_world)
                ([''tmp'', ''tmpa1b2'', ''video_concatenated.temp.webm''] \<mapsto> File [26, 69])\<rparr>)
           = Completed rc so se [] tm"
  shows "concatenate_raw_chunks proc [(0, [''in'', ''video'', ''video_0.webm''])]
           (joinpath ex_temp_dir ''video_concatenated.webm'') (ex_run_world\<lparr>now := tm0\<rparr>)
         = (Inr (rc = 0), ex_run_world\<lparr>now := tm\<rparr>)"
proof -
  let ?t = "[''tmp'', ''tmpa1b2'', ''video_concatenated.temp.webm'']"
  have out: "joinpath ex_temp_dir ''video_concatenated.webm'' =
      [''tmp'', ''tmpa1b2'', ''video_concatenated.webm'']"
    by (simp add: joinpath_def ex_temp_dir_def)
  have raw: "raw_concatenation [(0, [''in'', ''video'', ''video_0.webm''])] ?t
      (files (ex_run_world\<lparr>now := tm0\<rparr>)) = (Inr (), (files ex_run_world)(?t \<mapsto> File [26, 69]))"
    using ex_raw_video by simp
  have "concatenate_raw_chunks proc [(0, [''in'', ''video'', ''video_0.webm''])]
           [''tmp'', ''tmpa1b2'', ''video_concatenated.webm''] (ex_run_world\<lparr>now := tm0\<rparr>)
      = (Inr (rc = 0), \<lparr>files = (foldl write_file ((files ex_run_world)(?t \<mapsto> File [26, 69])) [])
            (?t := None), now = tm\<rparr>)"
    using assms by (intro concatenate_raw_chunks_run [OF _ ex_video_temp raw]) simp_all
  moreover have "((files ex_run_world)(?t \<mapsto> File [26, 69]))(?t := None) = files ex_run_world"
    using ex_temp_absent(1) by (simp add: fun_upd_idem)
  ultimately show ?thesis
    by (simp add: out ex_run_world_def)
qed

lemma ex_concatenate_audio_chunks:
  assumes "proc (repair_command [''tmp'', ''tmpa1b2'', ''audio_concatenated.temp.webm'']
                   [''tmp'', ''tmpa1b2'', ''audio_concatenated.webm''])
             (ex_run_world\<lparr>now := tm0, files := (files ex_run_world)
                ([''tmp'', ''tmpa1b2'', ''audio_concatenated.temp.webm''] \<mapsto> File [79])\<rparr>)
           = Completed rc so se written tm"
  shows "concatenate_raw_chunks proc [(0, [''in'', ''audio'', ''audio_0.webm''])]
           (joinpath ex_temp_dir ''audio_concatenated.webm'') (ex_run_world\<lparr>now := tm0\<rparr>)
         = (Inr (rc = 0),
            \<lparr>files = (foldl write_file ((files ex_run_world)
                  ([''tmp'', ''tmpa1b2'', ''audio_concatenated.temp.webm''] \<mapsto> File [79])) written)
                ([''tmp'', ''tmpa1b2'', ''audio_concatenated.temp.webm''] := None), now = tm\<rparr>)"
proof -
  let ?t = "[''tmp'', ''tmpa1b2'', ''audio_concatenated.temp.webm'']"
  have out: "joinpath ex_temp_dir ''audio_concatenated.webm'' =
      [''tmp'', ''tmpa1b2'', ''audio_concatenated.webm'']"
    by (simp add: joinpath_def ex_temp_dir_def)
  have raw: "raw_concatenation [(0, [''in'', ''audio'', ''audio_0.webm''])] ?t
      (files (ex_run_world\<lparr>now := tm0\<rparr>)) = (Inr (), (files ex_run_world)(?t \<mapsto> File [79]))"
    using ex_raw_audio by simp
  show ?thesis
    unfolding out using assms
    by (intro concatenate_raw_chunks_run [OF _ ex_audio_temp raw]) simp_all
qed

section \<open>Audio that cannot be concatenated\<close>

lemma finish_run_without_audio:
  "finish_run proc self v None srt w =
     (case mux_video_audio_with_captions proc v None srt
             (final_video_name self (strftime (now w))) w of
        (Inl e, w3) \<Rightarrow> (Inl e, w3)
      | (Inr ok, w3) \<Rightarrow>
          (Inr (if ok then Some (final_video_name self (strftime (now w))) else None, None), w3))"
  by (simp add: finish_run_def save_audio_def Let_def)

lemma ex_run_world_now: "ex_run_world\<lparr>now := ex_time\<rparr> = ex_run_world"
  by (simp add: ex_run_world_def)

text \<open>
  C5. When the video fragments are concatenated and the audio fragments, though
  present, are not, the rest of the run is the rest of a run without audio: no
  standalone audio file is written, the mux command gets no audio input, and the result
  is the final video path, or \<^verbatim>\<open>None\<close> when the mux fails, with no audio path.
\<close>

theorem audio_failure_degrades_to_no_audio:
  assumes "concatenate_raw_chunks proc video_chunks
             (joinpath temp_dir ''video_concatenated.webm'') w = (Inr True, w1)"
    and "audio_chunks \<noteq> []"
    and "concatenate_raw_chunks proc audio_chunks
           (joinpath temp_dir ''audio_concatenated.webm'') w1 = (Inr False, w2)"
  shows "process_in_tempdir proc self video_chunks audio_chunks srt_path temp_dir w
           = finish_run proc self (joinpath temp_dir ''video_concatenated.webm'') None srt_path w2
    \<and> process_in_tempdir proc self video_chunks [] srt_path temp_dir w
           = finish_run proc self (joinpath temp_dir ''video_concatenated.webm'') None srt_path w1
    \<and> finish_run proc self (joinpath temp_dir ''video_concatenated.webm'') None srt_path w2 =
         (case mux_video_audio_with_captions proc (joinpath temp_dir ''video_concatenated.webm'')
                 None srt_path (final_video_name self (strftime (now w2))) w2 of
            (Inl e, w3) \<Rightarrow> (Inl e, w3)
          | (Inr ok, w3) \<Rightarrow>
              (Inr (if ok then Some (final_video_name self (strftime (now w2))) else None, None),
               w3))"
proof -
  have "concatenate_audio proc audio_chunks temp_dir w1 = (Inr None, w2)"
    using assms(2,3) by (simp add: concatenate_audio_def)
  then have "process_in_tempdir proc self video_chunks audio_chunks srt_path temp_dir w
           = finish_run proc self (joinpath temp_dir ''video_concatenated.webm'') None srt_path w2"
    by (rule process_in_tempdir_video_ok [OF assms(1)])
  moreover have "concatenate_audio proc [] temp_dir w1 = (Inr None, w1)"
    by (simp add: concatenate_audio_def)
  then have "process_in_tempdir proc self video_chunks [] srt_path temp_dir w
           = finish_run proc self (joinpath temp_dir ''video_concatenated.webm'') None srt_path w1"
    by (rule process_in_tempdir_video_ok [OF assms(1)])
  ultimately show ?thesis
    by (simp add: finish_run_without_audio)
qed

text \<open>C5 with a program that fails on the raw audio intermediate only: the run ends with
  the final video path and no audio path.\<close>

theorem audio_failure_degrades_to_no_audio_witness:
  "process_in_tempdir (ffmpeg_failing_on ''tmp/tmpa1b2/audio_concatenated.temp.webm'') ex_self
      [(0, [''in'', ''video'', ''video_0.webm''])] [(0, [''in'', ''audio'', ''audio_0.webm''])]
      None ex_temp_dir ex_run_world
    = finish_run (ffmpeg_failing_on ''tmp/tmpa1b2/audio_concatenated.temp.webm'') ex_self
        (joinpath ex_temp_dir ''video_concatenated.webm'') None None ex_run_world
   \<and> fst (finish_run (ffmpeg_failing_on ''tmp/tmpa1b2/audio_concatenated.temp.webm'') ex_self
        (joinpath ex_temp_dir ''video_concatenated.webm'') None None ex_run_world)
    = Inr (Some [''out'', ''video'', ''output_2025-06-28_09-05-00.mp4''], None)"
proof -
  let ?proc = "ffmpeg_failing_on ''tmp/tmpa1b2/audio_concatenated.temp.webm''"
  have v: "concatenate_raw_chunks ?proc [(0, [''in'', ''video'', ''video_0.webm''])]
      (joinpath ex_temp_dir ''video_concatenated.webm'') ex_run_world = (Inr True, ex_run_world)"
    using ex_concatenate_video [of ?proc ex_time 0 "''done''" "[]" ex_time]
    by (simp add: ex_run_world_now ffmpeg_failing_on_def repair_command_def str_path_def
        ex_run_world_def)
  have "concatenate_raw_chunks ?proc [(0, [''in'', ''audio'', ''audio_0.webm''])]
      (joinpath ex_temp_dir ''audio_concatenated.webm'') ex_run_world =
      (Inr False, \<lparr>files = ((files ex_run_world)
            ([''tmp'', ''tmpa1b2'', ''audio_concatenated.temp.webm''] \<mapsto> File [79]))
          ([''tmp'', ''tmpa1b2'', ''audio_concatenated.temp.webm''] := None), now = ex_time\<rparr>)"
    using ex_concatenate_audio_chunks [of ?proc ex_time 1 "[]" "''Invalid data found''" "[]" ex_time]
    by (simp add: ex_run_world_now ffmpeg_failing_on_def repair_command_def str_path_def
        ex_run_world_def)
  moreover have "((files ex_run_world)
            ([''tmp'', ''tmpa1b2'', ''audio_concatenated.temp.webm''] \<mapsto> File [79]))
          ([''tmp'', ''tmpa1b2'', ''audio_concatenated.temp.webm''] := None) = files ex_run_world"
    using ex_temp_absent(2) by (simp add: fun_upd_idem)
  ultimately have a: "concatenate_raw_chunks ?proc [(0, [''in'', ''audio'', ''audio_0.webm''])]
      (joinpath ex_temp_dir ''audio_concatenated.webm'') ex_run_world = (Inr False, ex_run_world)"
    by (simp add: ex_run_world_def)
  have name: "final_video_name ex_self (strftime (now ex_run_world)) =
      [''out'', ''video'', ''output_2025-06-28_09-05-00.mp4'']"
    by (simp add: final_video_name_def ex_self_def joinpath_def ex_run_world_def ex_strftime)
  have mux: "fst (mux_video_audio_with_captions ?proc (joinpath ex_temp_dir ''video_concatenated.webm'')
      None None [''out'', ''video'', ''output_2025-06-28_09-05-00.mp4''] ex_run_world) = Inr True"
    by (simp add: mux_video_audio_with_captions_def run_ffmpeg_def ffmpeg_failing_on_def
        mux_command_def str_path_def joinpath_def ex_temp_dir_def)
  show ?thesis
    using audio_failure_degrades_to_no_audio [OF v _ a, of ex_self None] mux
    by (auto simp: name split: prod.splits sum.splits)
qed

section \<open>A failing mux\<close>

lemma ex_world_run: "ex_world\<lparr>files := ex_files(ex_temp_dir \<mapsto> Dir)\<rparr> = ex_run_world"
  by (simp add: ex_world_def ex_run_world_def)

lemma ex_repaired_after_process: "after_process ex_repaired_world [] ex_time = ex_repaired_world"
  by (simp add: after_process_def ex_repaired_world_def ex_run_world_def)

text \<open>
  C6. When the final mux fails, \<^verbatim>\<open>process_chunks\<close> returns no video path together
  with whatever the WAV step has saved: the path of the standalone audio file when that
  step ran and succeeded.
\<close>

theorem mux_failure_keeps_saved_audio:
  assumes "find_chunk_sequences self (files w) = (video_chunks, audio_chunks)"
    and "video_chunks \<noteq> []"
    and "mkdtemp temp_names (files w) = Inr (temp_dir, fs0)"
    and "concatenate_raw_chunks proc video_chunks
           (joinpath temp_dir ''video_concatenated.webm'') (w\<lparr>files := fs0\<rparr>) = (Inr True, w1)"
    and "concatenate_audio proc audio_chunks temp_dir w1 = (Inr audio_concat_path, w2)"
    and "save_audio proc audio_concat_path (final_audio_name self (strftime (now w2))) w2
           = (saved_audio_path, w3)"
    and "mux_video_audio_with_captions proc (joinpath temp_dir ''video_concatenated.webm'')
           audio_concat_path srt_path (final_video_name self (strftime (now w2))) w3
           = (Inr False, w4)"
  shows "fst (process_chunks proc temp_names self srt_path w) = Inr (None, saved_audio_path)
    \<and> (\<forall>a out w'. audio_concat_path = Some a \<and> path_exists (files w2) a
          \<and> run_ffmpeg proc (wav_command a (final_audio_name self (strftime (now w2)))) w2
              = (Inr (True, out), w')
          \<longrightarrow> saved_audio_path = Some (final_audio_name self (strftime (now w2))))"
proof -
  have "finish_run proc self (joinpath temp_dir ''video_concatenated.webm'') audio_concat_path
          srt_path w2 = (Inr (None, saved_audio_path), w4)"
    using assms(6,7) by (simp add: finish_run_def Let_def)
  then have "process_in_tempdir proc self video_chunks audio_chunks srt_path temp_dir
      (w\<lparr>files := fs0\<rparr>) = (Inr (None, saved_audio_path), w4)"
    using process_in_tempdir_video_ok [OF assms(4,5), of self srt_path] by simp
  then have "fst (process_chunks proc temp_names self srt_path w) = Inr (None, saved_audio_path)"
    using process_chunks_run [OF assms(1,2,3)] by simp
  moreover have "saved_audio_path = Some (final_audio_name self (strftime (now w2)))"
    if "audio_concat_path = Some a" and "path_exists (files w2) a"
      and "run_ffmpeg proc (wav_command a (final_audio_name self (strftime (now w2)))) w2
              = (Inr (True, out), w')" for a out w'
    using assms(6) that by (simp add: save_audio_def)
  ultimately show ?thesis by blast
qed

text \<open>C6 with a program that fails on the mux command only: the audio fragment is
  repaired and saved as WAV, the mux fails, and the audio path is still returned.\<close>

theorem mux_failure_keeps_saved_audio_witness:
  "fst (process_chunks (ffmpeg_failing_on ''libx264'') ex_temp_names ex_self None ex_world)
     = Inr (None, Some [''out'', ''audio'', ''audio_2025-06-28_09-05-00.wav''])"
proof -
  let ?proc = "ffmpeg_failing_on ''libx264''"
  let ?audio = "[''tmp'', ''tmpa1b2'', ''audio_concatenated.webm'']"
  let ?t = "[''tmp'', ''tmpa1b2'', ''audio_concatenated.temp.webm'']"
  let ?wav = "[''out'', ''audio'', ''audio_2025-06-28_09-05-00.wav'']"
  have h1: "find_chunk_sequences ex_self (files ex_world) =
      ([(0, [''in'', ''video'', ''video_0.webm''])], [(0, [''in'', ''audio'', ''audio_0.webm''])])"
    by (simp add: ex_world_def ex_find_chunk_sequences)
  have h3: "mkdtemp ex_temp_names (files ex_world) = Inr (ex_temp_dir, ex_files(ex_temp_dir \<mapsto> Dir))"
    by (simp add: ex_world_def ex_mkdtemp)
  have h4: "concatenate_raw_chunks ?proc [(0, [''in'', ''video'', ''video_0.webm''])]
      (joinpath ex_temp_dir ''video_concatenated.webm'')
      (ex_world\<lparr>files := ex_files(ex_temp_dir \<mapsto> Dir)\<rparr>) = (Inr True, ex_run_world)"
    using ex_concatenate_video [of ?proc ex_time 0 "''done''" "[]" ex_time]
    by (simp add: ex_world_run ex_run_world_now ffmpeg_failing_on_def repair_command_def
        str_path_def ex_run_world_def)
  have "concatenate_raw_chunks ?proc [(0, [''in'', ''audio'', ''audio_0.webm''])]
      (joinpath ex_temp_dir ''audio_concatenated.webm'') ex_run_world =
      (Inr True, \<lparr>files = (foldl write_file ((files ex_run_world)(?t \<mapsto> File [79]))
            [(?audio, [79])])(?t := None), now = ex_time\<rparr>)"
    using ex_concatenate_audio_chunks [of ?proc ex_time 0 "''done''" "[]" "[(?audio, [79])]" ex_time]
    by (simp add: ex_run_world_now ffmpeg_failing_on_def repair_command_def str_path_def
        ex_run_world_def)
  moreover have "(foldl write_file ((files ex_run_world)(?t \<mapsto> File [79])) [(?audio, [79])])
      (?t := None) = (files ex_run_world)(?audio \<mapsto> File [79])"
    by (auto simp: fun_eq_iff write_file_def ex_run_world_def ex_files_def ex_dirs_def
        ex_temp_dir_def)
  ultimately have "concatenate_raw_chunks ?proc [(0, [''in'', ''audio'', ''audio_0.webm''])]
      (joinpath ex_temp_dir ''audio_concatenated.webm'') ex_run_world = (Inr True, ex_repaired_world)"
    by (simp add: ex_repaired_world_def ex_run_world_def)
  then have h5: "concatenate_audio ?proc [(0, [''in'', ''audio'', ''audio_0.webm''])] ex_temp_dir
      ex_run_world = (Inr (Some ?audio), ex_repaired_world)"
    by (simp add: concatenate_audio_def Let_def) (simp add: joinpath_def ex_temp_dir_def)
  have stamp: "strftime (now ex_repaired_world) = ''2025-06-28_09-05-00''"
    by (simp add: ex_repaired_world_def ex_run_world_def ex_strftime)
  have now: "now ex_repaired_world = ex_time"
    by (simp add: ex_repaired_world_def ex_run_world_def)
  have wav: "final_audio_name ex_self ''2025-06-28_09-05-00'' = ?wav"
    by (simp add: final_audio_name_def ex_self_def joinpath_def)
  have h6: "save_audio ?proc (Some ?audio) (final_audio_name ex_self (strftime (now ex_repaired_world)))
      ex_repaired_world = (Some ?wav, ex_repaired_world)"
    unfolding stamp wav
    by (simp add: save_audio_def path_exists_def run_ffmpeg_def ffmpeg_failing_on_def
        wav_command_def str_path_def now ex_repaired_after_process)
       (simp add: ex_repaired_world_def)
  have h7: "mux_video_audio_with_captions ?proc (joinpath ex_temp_dir ''video_concatenated.webm'')
      (Some ?audio) None (final_video_name ex_self (strftime (now ex_repaired_world)))
      ex_repaired_world = (Inr False, ex_repaired_world)"
    by (simp add: mux_video_audio_with_captions_def run_ffmpeg_def ffmpeg_failing_on_def
        mux_command_def now ex_repaired_after_process)
  show ?thesis
    using mux_failure_keeps_saved_audio [OF h1 _ h3 h4 h5 h6 h7] by simp
qed

section \<open>The temporary directory\<close>

text \<open>
  C8. The temporary directory is made by the run (it did not exist before) and is gone
  when \<^verbatim>\<open>process_chunks\<close> ends, with everything in it, whatever the block inside
  returns or raises: a result, \<^verbatim>\<open>(None, None)\<close> after a failed video concatenation, a
  missing video or audio path, or an exception. Nothing outside the temporary directory
  is removed by the cleanup.
\<close>

theorem workspace_removed_on_every_exit:
  assumes "find_chunk_sequences self (files w) = (video_chunks, audio_chunks)"
    and "video_chunks \<noteq> []"
    and "mkdtemp temp_names (files w) = Inr (temp_dir, fs0)"
    and "process_in_tempdir proc self video_chunks audio_chunks srt_path temp_dir
           (w\<lparr>files := fs0\<rparr>) = (r, w2)"
  shows "files w temp_dir = None \<and> is_dir fs0 temp_dir
    \<and> (\<exists>w'. process_chunks proc temp_names self srt_path w = (r, w')
          \<and> (\<forall>p. prefix temp_dir p \<longrightarrow> files w' p = None)
          \<and> (\<forall>p. \<not> prefix temp_dir p \<longrightarrow> files w' p = files w2 p))"
  using mkdtemp_result [OF assms(3)] process_chunks_run [OF assms]
  by (simp add: is_dir_def)

text \<open>C8 on three runs: the video concatenation fails; the mux fails; the program cannot
  be started at all.\<close>

theorem workspace_removed_on_every_exit_witness:
  "files (snd (process_chunks failing_ffmpeg ex_temp_names ex_self None ex_world)) ex_temp_dir = None
   \<and> files (snd (process_chunks (ffmpeg_failing_on ''libx264'') ex_temp_names ex_self None ex_world))
        [''tmp'', ''tmpa1b2'', ''audio_concatenated.webm''] = None
   \<and> files (snd (process_chunks no_ffmpeg ex_temp_names ex_self None ex_world)) ex_temp_dir = None"
proof -
  have h1: "find_chunk_sequences ex_self (files ex_world) =
      ([(0, [''in'', ''video'', ''video_0.webm''])], [(0, [''in'', ''audio'', ''audio_0.webm''])])"
    by (simp add: ex_world_def ex_find_chunk_sequences)
  have h3: "mkdtemp ex_temp_names (files ex_world) = Inr (ex_temp_dir, ex_files(ex_temp_dir \<mapsto> Dir))"
    by (simp add: ex_world_def ex_mkdtemp)
  have "files (snd (process_chunks proc ex_temp_names ex_self None ex_world)) p = None"
    if "prefix ex_temp_dir p" for proc p
    using that workspace_removed_on_every_exit [OF h1 _ h3, of proc None
        "fst (process_in_tempdir proc ex_self [(0, [''in'', ''video'', ''video_0.webm''])]
           [(0, [''in'', ''audio'', ''audio_0.webm''])] None ex_temp_dir
           (ex_world\<lparr>files := ex_files(ex_temp_dir \<mapsto> Dir)\<rparr>))"
        "snd (process_in_tempdir proc ex_self [(0, [''in'', ''video'', ''video_0.webm''])]
           [(0, [''in'', ''audio'', ''audio_0.webm''])] None ex_temp_dir
           (ex_world\<lparr>files := ex_files(ex_temp_dir \<mapsto> Dir)\<rparr>))"]
    by auto
  then show ?thesis
    by (simp add: ex_temp_dir_def)
qed

section \<open>Output directories and output names\<close>

lemma os_mkdir_keeps: "os_mkdir fs p = Inr fs' \<Longrightarrow> fs q = Some Dir \<Longrightarrow> fs' q = Some Dir"
  by (auto dest: os_mkdir_result)

lemma mkdir_parents_keeps:
  "mkdir_parents fs p = Inr fs' \<Longrightarrow> fs q = Some Dir \<Longrightarrow> fs' q = Some Dir"
proof (induction fs p arbitrary: fs' rule: mkdir_parents.induct)
  case (1 fs p)
  show ?case
  proof (cases "os_mkdir fs p")
    case (Inr fs1)
    with "1.prems" show ?thesis
      by (subst (asm) mkdir_parents.simps) (auto dest: os_mkdir_keeps)
  next
    case (Inl e)
    show ?thesis
    proof (cases "e = FileNotFoundError \<and> parent p \<noteq> p")
      case False
      with Inl "1.prems" show ?thesis
        by (subst (asm) mkdir_parents.simps) (auto split: if_splits)
    next
      case True
      with Inl "1.prems"(1) obtain fs1 where
        par: "mkdir_parents fs (parent p) = Inr fs1"
        by (subst (asm) mkdir_parents.simps) (auto split: sum.splits)
      have k1: "fs1 q = Some Dir"
        using "1.IH" [OF Inl _ _ par "1.prems"(2)] True by simp
      have "mkdir_parents fs p =
          (case os_mkdir fs1 p of
             Inr fs2 \<Rightarrow> Inr fs2
           | Inl e2 \<Rightarrow> if e2 = FileNotFoundError then Inl e2
                      else if is_dir fs1 p then Inr fs1 else Inl e2)"
        using Inl True par by (subst mkdir_parents.simps) simp
      with "1.prems"(1) have "os_mkdir fs1 p = Inr fs' \<or> fs' = fs1"
        by (auto split: sum.splits if_splits)
      with k1 show ?thesis
        by (auto dest: os_mkdir_keeps)
    qed
  qed
qed

lemma mkdir_parents_creates: "mkdir_parents fs p = Inr fs' \<Longrightarrow> fs' p = Some Dir"
  by (subst (asm) mkdir_parents.simps)
     (auto simp: is_dir_def split: sum.splits if_splits dest: os_mkdir_result)

lemma init_creates_output_dirs:
  assumes "init vc ac vo ao tr fs = Inr (self, fs')"
  shows "video_output_dir self = vo \<and> audio_output_dir self = ao
    \<and> is_dir fs' vo \<and> is_dir fs' ao"
proof -
  from assms obtain fs1 fs2 where
    m1: "mkdir_parents fs vo = Inr fs1" and m2: "mkdir_parents fs1 ao = Inr fs2"
    by (auto simp: init_def Let_def split: sum.splits)
  have d1: "fs2 vo = Some Dir"
    using mkdir_parents_keeps [OF m2 mkdir_parents_creates [OF m1]] .
  have d2: "fs2 ao = Some Dir"
    using mkdir_parents_creates [OF m2] .
  show ?thesis
  proof (cases tr)
    case None
    with assms m1 m2 d1 d2 show ?thesis
      by (auto simp: init_def Let_def is_dir_def)
  next
    case (Some t)
    with assms m1 m2 obtain fs3 where m3: "mkdir_parents fs2 t = Inr fs3" and "fs' = fs3"
      and "self = \<lparr>video_chunks_dir = vc, audio_chunks_dir = ac, video_output_dir = vo,
             audio_output_dir = ao, transcript_output_dir = tr\<rparr>"
      by (auto simp: init_def Let_def split: sum.splits)
    with mkdir_parents_keeps [OF m3 d1] mkdir_parents_keeps [OF m3 d2] show ?thesis
      by (simp add: is_dir_def)
  qed
qed

lemma finish_run_names:
  assumes "finish_run proc self v a srt w = (Inr (final_video, final_audio), w')"
  shows "(final_video = None \<or> final_video = Some (final_video_name self (strftime (now w))))
    \<and> (final_audio = None \<or> final_audio = Some (final_audio_name self (strftime (now w))))"
proof -
  obtain saved w1 where s: "save_audio proc a (final_audio_name self (strftime (now w))) w = (saved, w1)"
    by (cases "save_audio proc a (final_audio_name self (strftime (now w))) w")
  then have "saved = None \<or> saved = Some (final_audio_name self (strftime (now w)))"
    by (auto simp: save_audio_def split: option.splits if_splits sum.splits prod.splits)
  with assms s show ?thesis
    by (auto simp: finish_run_def Let_def split: sum.splits prod.splits if_splits)
qed

section \<open>The time stamp of the output names\<close>

lemma ex_strftime_later:
  "strftime (ex_time\<lparr>second := 10\<rparr>) = ''2025-06-28_09-05-10''"
  by code_simp

text \<open>A run on the concrete installation in which each of the three commands takes five
  seconds: the names are made when the clock shows ten seconds past the start.\<close>

lemma ex_slow_run:
  "concatenate_raw_chunks slow_ffmpeg [(0, [''in'', ''video'', ''video_0.webm''])]
      (joinpath ex_temp_dir ''video_concatenated.webm'') ex_run_world
     = (Inr True, ex_run_world\<lparr>now := ex_time\<lparr>second := 5\<rparr>\<rparr>)"
  "concatenate_audio slow_ffmpeg [(0, [''in'', ''audio'', ''audio_0.webm''])] ex_temp_dir
      (ex_run_world\<lparr>now := ex_time\<lparr>second := 5\<rparr>\<rparr>)
     = (Inr (Some [''tmp'', ''tmpa1b2'', ''audio_concatenated.webm'']),
        ex_run_world\<lparr>now := ex_time\<lparr>second := 10\<rparr>\<rparr>)"
  "process_in_tempdir slow_ffmpeg ex_self [(0, [''in'', ''video'', ''video_0.webm''])]
      [(0, [''in'', ''audio'', ''audio_0.webm''])] None ex_temp_dir ex_run_world
     = (Inr (Some [''out'', ''video'', ''output_2025-06-28_09-05-10.mp4''], None),
        ex_run_world\<lparr>now := ex_time\<lparr>second := 15\<rparr>\<rparr>)"
proof -
  let ?t = "[''tmp'', ''tmpa1b2'', ''audio_concatenated.temp.webm'']"
  let ?audio = "[''tmp'', ''tmpa1b2'', ''audio_concatenated.webm'']"
  let ?w2 = "ex_run_world\<lparr>now := ex_time\<lparr>second := 10\<rparr>\<rparr>"
  show v: "concatenate_raw_chunks slow_ffmpeg [(0, [''in'', ''video'', ''video_0.webm''])]
      (joinpath ex_temp_dir ''video_concatenated.webm'') ex_run_world
     = (Inr True, ex_run_world\<lparr>now := ex_time\<lparr>second := 5\<rparr>\<rparr>)"
  proof -
    have "slow_ffmpeg command (ex_run_world\<lparr>now := ex_time, files := fs\<rparr>)
        = Completed 0 ''done'' [] [] (ex_time\<lparr>second := 5\<rparr>)" for command fs
      by (simp add: slow_ffmpeg_def ex_time_def)
    then show ?thesis
      using ex_concatenate_video [of slow_ffmpeg ex_time 0 "''done''" "[]" "ex_time\<lparr>second := 5\<rparr>"]
      by (simp add: ex_run_world_now)
  qed
  have "concatenate_raw_chunks slow_ffmpeg [(0, [''in'', ''audio'', ''audio_0.webm''])]
      (joinpath ex_temp_dir ''audio_concatenated.webm'')
      (ex_run_world\<lparr>now := ex_time\<lparr>second := 5\<rparr>\<rparr>)
     = (Inr True, \<lparr>files = (foldl write_file ((files ex_run_world)(?t \<mapsto> File [79])) [])
          (?t := None), now = ex_time\<lparr>second := 10\<rparr>\<rparr>)"
  proof -
    have "slow_ffmpeg command (ex_run_world\<lparr>now := ex_time\<lparr>second := 5\<rparr>, files := fs\<rparr>)
        = Completed 0 ''done'' [] [] (ex_time\<lparr>second := 10\<rparr>)" for command fs
      by (simp add: slow_ffmpeg_def ex_time_def)
    then show ?thesis
      using ex_concatenate_audio_chunks [of slow_ffmpeg "ex_time\<lparr>second := 5\<rparr>" 0 "''done''" "[]"
          "[]" "ex_time\<lparr>second := 10\<rparr>"]
      by simp
  qed
  moreover have "((files ex_run_world)(?t \<mapsto> File [79]))(?t := None) = files ex_run_world"
    using ex_temp_absent(2) by (simp add: fun_upd_idem)
  ultimately have "concatenate_raw_chunks slow_ffmpeg [(0, [''in'', ''audio'', ''audio_0.webm''])]
      (joinpath ex_temp_dir ''audio_concatenated.webm'')
      (ex_run_world\<lparr>now := ex_time\<lparr>second := 5\<rparr>\<rparr>) = (Inr True, ?w2)"
    by (simp add: ex_run_world_def)
  then show a: "concatenate_audio slow_ffmpeg [(0, [''in'', ''audio'', ''audio_0.webm''])] ex_temp_dir
      (ex_run_world\<lparr>now := ex_time\<lparr>second := 5\<rparr>\<rparr>) = (Inr (Some ?audio), ?w2)"
    by (simp add: concatenate_audio_def Let_def) (simp add: joinpath_def ex_temp_dir_def)
  have stamp: "strftime (now ?w2) = ''2025-06-28_09-05-10''"
    by (simp add: ex_strftime_later)
  have absent: "\<not> path_exists (files ?w2) ?audio"
    by (simp add: path_exists_def ex_run_world_def ex_files_def ex_dirs_def ex_temp_dir_def)
  have "finish_run slow_ffmpeg ex_self (joinpath ex_temp_dir ''video_concatenated.webm'')
      (Some ?audio) None ?w2
     = (Inr (Some [''out'', ''video'', ''output_2025-06-28_09-05-10.mp4''], None),
        ex_run_world\<lparr>now := ex_time\<lparr>second := 15\<rparr>\<rparr>)"
    unfolding finish_run_def stamp
    using absent
    by (simp add: save_audio_def mux_video_audio_with_captions_def run_ffmpeg_def slow_ffmpeg_def
        final_video_name_def ex_self_def joinpath_def after_process_def ex_run_world_def
        ex_time_def)
  then show "process_in_tempdir slow_ffmpeg ex_self [(0, [''in'', ''video'', ''video_0.webm''])]
      [(0, [''in'', ''audio'', ''audio_0.webm''])] None ex_temp_dir ex_run_world
     = (Inr (Some [''out'', ''video'', ''output_2025-06-28_09-05-10.mp4''], None),
        ex_run_world\<lparr>now := ex_time\<lparr>second := 15\<rparr>\<rparr>)"
    using process_in_tempdir_video_ok [OF v a, of ex_self None] by simp
qed

text \<open>
  C9, as stated, fails: the time stamp is not the time at which the run starts. The
  clock is read in step 3, after both concatenations; when each command takes five
  seconds, a run started at 09:05:00 names its video after 09:05:10.
\<close>

theorem timestamp_is_not_start_time:
  "strftime (now ex_world) = ''2025-06-28_09-05-00''
   \<and> fst (process_chunks slow_ffmpeg ex_temp_names ex_self None ex_world)
       = Inr (Some [''out'', ''video'', ''output_2025-06-28_09-05-10.mp4''], None)"
proof -
  have h1: "find_chunk_sequences ex_self (files ex_world) =
      ([(0, [''in'', ''video'', ''video_0.webm''])], [(0, [''in'', ''audio'', ''audio_0.webm''])])"
    by (simp add: ex_world_def ex_find_chunk_sequences)
  have h3: "mkdtemp ex_temp_names (files ex_world) = Inr (ex_temp_dir, ex_files(ex_temp_dir \<mapsto> Dir))"
    by (simp add: ex_world_def ex_mkdtemp)
  have h4: "process_in_tempdir slow_ffmpeg ex_self [(0, [''in'', ''video'', ''video_0.webm''])]
      [(0, [''in'', ''audio'', ''audio_0.webm''])] None ex_temp_dir
      (ex_world\<lparr>files := ex_files(ex_temp_dir \<mapsto> Dir)\<rparr>)
     = (Inr (Some [''out'', ''video'', ''output_2025-06-28_09-05-10.mp4''], None),
        ex_run_world\<lparr>now := ex_time\<lparr>second := 15\<rparr>\<rparr>)"
    unfolding ex_world_run by (rule ex_slow_run(3))
  show ?thesis
    using process_chunks_run [OF h1 _ h3 h4]
    by (simp add: ex_world_def ex_strftime)
qed

text \<open>
  C9, amended. The two output names of a run carry one time stamp, to the second: the
  clock reading taken once the video and the audio fragments have been concatenated.
  The names are \<^verbatim>\<open>output_{timestamp}.mp4\<close> in the video output directory and
  \<^verbatim>\<open>audio_{timestamp}.wav\<close> in the audio output directory, and \<^verbatim>\<open>__init__\<close>, when it
  returns, has made both directories.
\<close>

theorem output_names_share_one_timestamp:
  "(init vc ac vo ao tr fs = Inr (self0, fs') \<longrightarrow>
      video_output_dir self0 = vo \<and> audio_output_dir self0 = ao
      \<and> is_dir fs' vo \<and> is_dir fs' ao)
   \<and> (concatenate_raw_chunks proc video_chunks
          (joinpath temp_dir ''video_concatenated.webm'') w = (Inr True, w1)
       \<and> concatenate_audio proc audio_chunks temp_dir w1 = (Inr audio_concat_path, w2)
       \<and> process_in_tempdir proc self video_chunks audio_chunks srt_path temp_dir w
           = (Inr (final_video, final_audio), w')
       \<longrightarrow> (final_video = None \<or> final_video =
              Some (joinpath (video_output_dir self) (''output_'' @ strftime (now w2) @ ''.mp4'')))
         \<and> (final_audio = None \<or> final_audio =
              Some (joinpath (audio_output_dir self) (''audio_'' @ strftime (now w2) @ ''.wav''))))"
proof -
  have "(final_video = None \<or> final_video = Some (final_video_name self (strftime (now w2))))
      \<and> (final_audio = None \<or> final_audio = Some (final_audio_name self (strftime (now w2))))"
    if v: "concatenate_raw_chunks proc video_chunks
          (joinpath temp_dir ''video_concatenated.webm'') w = (Inr True, w1)"
      and a: "concatenate_audio proc audio_chunks temp_dir w1 = (Inr audio_concat_path, w2)"
      and r: "process_in_tempdir proc self video_chunks audio_chunks srt_path temp_dir w
           = (Inr (final_video, final_audio), w')"
    using r finish_run_names [of proc self _ audio_concat_path srt_path w2 final_video final_audio w']
    unfolding process_in_tempdir_video_ok [OF v a] by blast
  then show ?thesis
    using init_creates_output_dirs [of vc ac vo ao tr fs self0 fs']
    by (simp add: final_video_name_def final_audio_name_def)
qed

text \<open>C9, amended, on a disk without output directories and on the run above.\<close>

theorem output_names_share_one_timestamp_witness:
  "init [''in'', ''video''] [''in'', ''audio''] [''out'', ''video''] [''out'', ''audio''] None
      ex_empty_disk
     = Inr (ex_self, ex_empty_disk([''out''] \<mapsto> Dir, [''out'', ''video''] \<mapsto> Dir,
              [''out'', ''audio''] \<mapsto> Dir))
   \<and> is_dir (ex_empty_disk([''out''] \<mapsto> Dir, [''out'', ''video''] \<mapsto> Dir,
              [''out'', ''audio''] \<mapsto> Dir)) [''out'', ''audio'']
   \<and> strftime (now (ex_run_world\<lparr>now := ex_time\<lparr>second := 10\<rparr>\<rparr>)) = ''2025-06-28_09-05-10''
   \<and> fst (process_in_tempdir slow_ffmpeg ex_self [(0, [''in'', ''video'', ''video_0.webm''])]
        [(0, [''in'', ''audio'', ''audio_0.webm''])] None ex_temp_dir ex_run_world)
       = Inr (Some (joinpath (video_output_dir ex_self)
                (''output_'' @ strftime (now (ex_run_world\<lparr>now := ex_time\<lparr>second := 10\<rparr>\<rparr>)) @ ''.mp4'')),
              None)"
proof -
  have i: "init [''in'', ''video''] [''in'', ''audio''] [''out'', ''video''] [''out'', ''audio''] None
      ex_empty_disk
     = Inr (ex_self, ex_empty_disk([''out''] \<mapsto> Dir, [''out'', ''video''] \<mapsto> Dir,
              [''out'', ''audio''] \<mapsto> Dir))"
    by (simp add: init_def mkdir_parents.simps os_mkdir_def parent_def ex_empty_disk_def
        ex_self_def)
  show ?thesis
    using output_names_share_one_timestamp [of "[''in'', ''video'']" "[''in'', ''audio'']"
        "[''out'', ''video'']" "[''out'', ''audio'']" None ex_empty_disk ex_self
        "ex_empty_disk([''out''] \<mapsto> Dir, [''out'', ''video''] \<mapsto> Dir, [''out'', ''audio''] \<mapsto> Dir)"
        slow_ffmpeg "[(0, [''in'', ''video'', ''video_0.webm''])]" ex_temp_dir ex_run_world
        "ex_run_world\<lparr>now := ex_time\<lparr>second := 5\<rparr>\<rparr>"
        "[(0, [''in'', ''audio'', ''audio_0.webm''])]"
        "Some [''tmp'', ''tmpa1b2'', ''audio_concatenated.webm'']"
        "ex_run_world\<lparr>now := ex_time\<lparr>second := 10\<rparr>\<rparr>" ex_self None
        "Some [''out'', ''video'', ''output_2025-06-28_09-05-10.mp4'']" None
        "ex_run_world\<lparr>now := ex_time\<lparr>second := 15\<rparr>\<rparr>"]
      i ex_slow_run
    by (simp add: ex_strftime_later)
qed

section \<open>A program that fails, and a program that cannot be started\<close>

text \<open>
  C2, as stated, fails: when \<^verbatim>\<open>ffmpeg\<close> cannot be started, the exception reaches
  \<^verbatim>\<open>concatenate_raw_chunks\<close>, whose \<^verbatim>\<open>except Exception\<close> turns it into the return value
  \<^verbatim>\<open>False\<close>, and \<^verbatim>\<open>process_chunks\<close> returns \<^verbatim>\<open>(None, None)\<close> as it does when the
  repair exits with a non-zero status.
\<close>

theorem launch_failure_becomes_false:
  "fst (run_ffmpeg no_ffmpeg
          (repair_command [''tmp'', ''tmpa1b2'', ''video_concatenated.temp.webm'']
             [''tmp'', ''tmpa1b2'', ''video_concatenated.webm''])
          ex_run_world) = Inl FileNotFoundError
   \<and> fst (concatenate_raw_chunks no_ffmpeg [(0, [''in'', ''video'', ''video_0.webm''])]
          [''tmp'', ''tmpa1b2'', ''video_concatenated.webm''] ex_run_world) = Inr False
   \<and> fst (process_chunks no_ffmpeg ex_temp_names ex_self None ex_world) = Inr (None, None)
   \<and> fst (process_chunks failing_ffmpeg ex_temp_names ex_self None ex_world) = Inr (None, None)"
proof -
  let ?chunks = "[(0::nat, [''in'', ''video'', ''video_0.webm''])]"
  let ?out = "[''tmp'', ''tmpa1b2'', ''video_concatenated.webm'']"
  let ?t = "[''tmp'', ''tmpa1b2'', ''video_concatenated.temp.webm'']"
  have nd: "files ex_run_world ?t \<noteq> Some Dir"
    by (simp add: ex_run_world_def ex_files_def ex_dirs_def ex_temp_dir_def)
  have a: "fst (run_ffmpeg no_ffmpeg (repair_command ?t ?out) ex_run_world) = Inl FileNotFoundError"
    by (simp add: run_ffmpeg_def no_ffmpeg_def)
  have "fst (concatenate_try no_ffmpeg ?chunks ?t ?out ex_run_world) = Inl FileNotFoundError"
    by (simp add: concatenate_try_def ex_raw_video run_ffmpeg_def no_ffmpeg_def)
  then have b: "fst (concatenate_raw_chunks no_ffmpeg ?chunks ?out ex_run_world) = Inr False"
    by (intro concatenate_raw_chunks_handler [OF _ ex_video_temp nd]) simp_all
  have "fst (concatenate_try failing_ffmpeg ?chunks ?t ?out ex_run_world) = Inr False"
    by (simp add: concatenate_try_def ex_raw_video run_ffmpeg_def failing_ffmpeg_def
        remove_temp_def path_exists_def unlink_def after_process_def)
  then have b': "fst (concatenate_raw_chunks failing_ffmpeg ?chunks ?out ex_run_world) = Inr False"
    by (auto simp: concatenate_raw_chunks_cases [OF _ ex_video_temp nd] split: prod.splits sum.splits)
  have run: "ex_world\<lparr>files := ex_files(ex_temp_dir \<mapsto> Dir)\<rparr> = ex_run_world"
    by (simp add: ex_world_def ex_run_world_def)
  have c: "fst (process_chunks proc ex_temp_names ex_self None ex_world) = Inr (None, None)"
    if f: "fst (concatenate_raw_chunks proc ?chunks ?out ex_run_world) = Inr False" for proc
  proof -
    obtain w1 where "concatenate_raw_chunks proc ?chunks
        (joinpath ex_temp_dir ''video_concatenated.webm'') ex_run_world = (Inr False, w1)"
      using f by (cases "concatenate_raw_chunks proc ?chunks ?out ex_run_world")
        (simp add: ex_temp_dir_def joinpath_def)
    then have body: "process_in_tempdir proc ex_self ?chunks [(0, [''in'', ''audio'', ''audio_0.webm''])]
        None ex_temp_dir (ex_world\<lparr>files := ex_files(ex_temp_dir \<mapsto> Dir)\<rparr>) = (Inr (None, None), w1)"
      unfolding run by (rule process_in_tempdir_video_failed)
    have "find_chunk_sequences ex_self (files ex_world) =
        (?chunks, [(0, [''in'', ''audio'', ''audio_0.webm''])])"
      by (simp add: ex_world_def ex_find_chunk_sequences)
    moreover have "mkdtemp ex_temp_names (files ex_world) = Inr (ex_temp_dir, ex_files(ex_temp_dir \<mapsto> Dir))"
      by (simp add: ex_world_def ex_mkdtemp)
    ultimately show ?thesis
      using process_chunks_run [OF _ _ _ body, of ex_temp_names] by simp
  qed
  from a b c [OF b] c [OF b'] show ?thesis by simp
qed

text \<open>
  C2, amended. \<^verbatim>\<open>run_ffmpeg\<close> reports a non-zero exit status as \<^verbatim>\<open>(False, stderr)\<close> and
  does not raise for it. When the program cannot be started, \<^verbatim>\<open>run_ffmpeg\<close> itself
  raises and never returns \<^verbatim>\<open>False\<close> for it;
  \<^verbatim>\<open>mux_video_audio_with_captions\<close> passes the exception on, and from there it leaves
  \<^verbatim>\<open>process_chunks\<close>. \<^verbatim>\<open>concatenate_raw_chunks\<close>, however, catches it and returns
  \<^verbatim>\<open>False\<close>, and the WAV step catches it and saves no audio.
\<close>

theorem run_ffmpeg_failures:
  "(proc command w = Completed rc out err written t \<and> rc \<noteq> 0 \<longrightarrow>
      run_ffmpeg proc command w = (Inr (False, err), after_process w written t))
   \<and> (proc1 command1 w1 = Not_Launched e1 \<longrightarrow> run_ffmpeg proc1 command1 w1 = (Inl e1, w1))
   \<and> (proc1 (mux_command (files w1) v a s target) w1 = Not_Launched e1 \<longrightarrow>
        mux_video_audio_with_captions proc1 v a s target w1 = (Inl e1, w1))
   \<and> (find_chunk_sequences self (files w3) = (video_chunks, audio_chunks) \<and> video_chunks \<noteq> []
        \<and> mkdtemp temp_names (files w3) = Inr (temp_dir, fs0)
        \<and> concatenate_raw_chunks proc3 video_chunks
             (joinpath temp_dir ''video_concatenated.webm'') (w3\<lparr>files := fs0\<rparr>) = (Inr True, w4)
        \<and> concatenate_audio proc3 audio_chunks temp_dir w4 = (Inr audio_concat_path, w5)
        \<and> save_audio proc3 audio_concat_path (final_audio_name self (strftime (now w5))) w5
             = (saved_audio_path, w6)
        \<and> proc3 (mux_command (files w6) (joinpath temp_dir ''video_concatenated.webm'')
                    audio_concat_path srt_path (final_video_name self (strftime (now w5)))) w6
             = Not_Launched e3 \<longrightarrow>
        fst (process_chunks proc3 temp_names self srt_path w3) = Inl e3)
   \<and> (chunks \<noteq> [] \<and> with_suffix output_path ''.temp.webm'' = Inr temp
        \<and> raw_concatenation chunks temp (files w2) = (Inr (), fs1)
        \<and> proc2 (repair_command temp output_path) (w2\<lparr>files := fs1\<rparr>) = Not_Launched e2 \<longrightarrow>
        fst (concatenate_raw_chunks proc2 chunks output_path w2) = Inr False)
   \<and> (path_exists (files w7) audio \<and> proc7 (wav_command audio wav) w7 = Not_Launched e7 \<longrightarrow>
        save_audio proc7 (Some audio) wav w7 = (None, w7))"
proof -
  have caught: "fst (concatenate_raw_chunks proc2 chunks output_path w2) = Inr False"
    if "chunks \<noteq> []" and ws: "with_suffix output_path ''.temp.webm'' = Inr temp"
      and raw: "raw_concatenation chunks temp (files w2) = (Inr (), fs1)"
      and "proc2 (repair_command temp output_path) (w2\<lparr>files := fs1\<rparr>) = Not_Launched e2"
  proof -
    have "files w2 temp \<noteq> Some Dir"
      using raw by (rule raw_concatenation_ok_not_dir)
    moreover have "fst (concatenate_try proc2 chunks temp output_path w2) = Inl e2"
      using raw that(4) by (simp add: concatenate_try_def run_ffmpeg_def)
    ultimately show ?thesis
      using that(1) ws by (intro concatenate_raw_chunks_handler)
  qed
  have surfaced: "fst (process_chunks proc3 temp_names self srt_path w3) = Inl e3"
    if f: "find_chunk_sequences self (files w3) = (video_chunks, audio_chunks)"
      and ne: "video_chunks \<noteq> []"
      and d: "mkdtemp temp_names (files w3) = Inr (temp_dir, fs0)"
      and v: "concatenate_raw_chunks proc3 video_chunks
             (joinpath temp_dir ''video_concatenated.webm'') (w3\<lparr>files := fs0\<rparr>) = (Inr True, w4)"
      and a: "concatenate_audio proc3 audio_chunks temp_dir w4 = (Inr audio_concat_path, w5)"
      and sv: "save_audio proc3 audio_concat_path (final_audio_name self (strftime (now w5))) w5
             = (saved_audio_path, w6)"
      and m: "proc3 (mux_command (files w6) (joinpath temp_dir ''video_concatenated.webm'')
                    audio_concat_path srt_path (final_video_name self (strftime (now w5)))) w6
             = Not_Launched e3"
  proof -
    have "finish_run proc3 self (joinpath temp_dir ''video_concatenated.webm'') audio_concat_path
        srt_path w5 = (Inl e3, w6)"
      using sv m by (simp add: finish_run_def Let_def mux_video_audio_with_captions_def run_ffmpeg_def)
    then have "process_in_tempdir proc3 self video_chunks audio_chunks srt_path temp_dir
        (w3\<lparr>files := fs0\<rparr>) = (Inl e3, w6)"
      using process_in_tempdir_video_ok [OF v a, of self srt_path] by simp
    then show ?thesis
      using process_chunks_run [OF f ne d] by simp
  qed
  show ?thesis
    using caught surfaced
    by (simp add: run_ffmpeg_def mux_video_audio_with_captions_def save_audio_def)
qed

text \<open>C2: the amended statement at the concrete installation, with a program that exits
  with status 1, with a program that is not installed, and with a program that is gone
  by the time of the mux.\<close>

theorem run_ffmpeg_failures_witness:
  "run_ffmpeg failing_ffmpeg [''ffmpeg'', ''-version''] ex_run_world =
      (Inr (False, ''Invalid data found''), after_process ex_run_world [] ex_time)
   \<and> run_ffmpeg no_ffmpeg [''ffmpeg'', ''-version''] ex_run_world = (Inl FileNotFoundError, ex_run_world)
   \<and> mux_video_audio_with_captions no_ffmpeg [''v''] None None [''o''] ex_run_world
        = (Inl FileNotFoundError, ex_run_world)
   \<and> fst (process_chunks (ffmpeg_missing_on ''libx264'') ex_temp_names ex_self None ex_world)
        = Inl FileNotFoundError
   \<and> fst (concatenate_raw_chunks no_ffmpeg [(0, [''in'', ''video'', ''video_0.webm''])]
          [''tmp'', ''tmpa1b2'', ''video_concatenated.webm''] ex_run_world) = Inr False
   \<and> save_audio no_ffmpeg (Some [''in'', ''audio'', ''audio_0.webm'']) [''o.wav''] ex_run_world
        = (None, ex_run_world)"
proof -
  let ?proc = "ffmpeg_missing_on ''libx264''"
  let ?audio = "[''tmp'', ''tmpa1b2'', ''audio_concatenated.webm'']"
  let ?t = "[''tmp'', ''tmpa1b2'', ''audio_concatenated.temp.webm'']"
  have h1: "find_chunk_sequences ex_self (files ex_world) =
      ([(0, [''in'', ''video'', ''video_0.webm''])], [(0, [''in'', ''audio'', ''audio_0.webm''])])"
    by (simp add: ex_world_def ex_find_chunk_sequences)
  have h3: "mkdtemp ex_temp_names (files ex_world) = Inr (ex_temp_dir, ex_files(ex_temp_dir \<mapsto> Dir))"
    by (simp add: ex_world_def ex_mkdtemp)
  have h4: "concatenate_raw_chunks ?proc [(0, [''in'', ''video'', ''video_0.webm''])]
      (joinpath ex_temp_dir ''video_concatenated.webm'')
      (ex_world\<lparr>files := ex_files(ex_temp_dir \<mapsto> Dir)\<rparr>) = (Inr True, ex_run_world)"
    using ex_concatenate_video [of ?proc ex_time 0 "''done''" "[]" ex_time]
    by (simp add: ex_world_run ex_run_world_now ffmpeg_missing_on_def repair_command_def
        str_path_def ex_run_world_def)
  have "concatenate_raw_chunks ?proc [(0, [''in'', ''audio'', ''audio_0.webm''])]
      (joinpath ex_temp_dir ''audio_concatenated.webm'') ex_run_world =
      (Inr True, \<lparr>files = (foldl write_file ((files ex_run_world)(?t \<mapsto> File [79])) [])
          (?t := None), now = ex_time\<rparr>)"
    using ex_concatenate_audio_chunks [of ?proc ex_time 0 "''done''" "[]" "[]" ex_time]
    by (simp add: ex_run_world_now ffmpeg_missing_on_def repair_command_def str_path_def
        ex_run_world_def)
  moreover have "((files ex_run_world)(?t \<mapsto> File [79]))(?t := None) = files ex_run_world"
    using ex_temp_absent(2) by (simp add: fun_upd_idem)
  ultimately have "concatenate_raw_chunks ?proc [(0, [''in'', ''audio'', ''audio_0.webm''])]
      (joinpath ex_temp_dir ''audio_concatenated.webm'') ex_run_world = (Inr True, ex_run_world)"
    by (simp add: ex_run_world_def)
  then have h5: "concatenate_audio ?proc [(0, [''in'', ''audio'', ''audio_0.webm''])] ex_temp_dir
      ex_run_world = (Inr (Some ?audio), ex_run_world)"
    by (simp add: concatenate_audio_def Let_def) (simp add: joinpath_def ex_temp_dir_def)
  have h6: "save_audio ?proc (Some ?audio) (final_audio_name ex_self (strftime (now ex_run_world)))
      ex_run_world = (None, ex_run_world)"
    by (simp add: save_audio_def path_exists_def ex_run_world_def ex_files_def ex_dirs_def
        ex_temp_dir_def)
  have h7: "?proc (mux_command (files ex_run_world) (joinpath ex_temp_dir ''video_concatenated.webm'')
      (Some ?audio) None (final_video_name ex_self (strftime (now ex_run_world)))) ex_run_world
      = Not_Launched FileNotFoundError"
    by (simp add: ffmpeg_missing_on_def mux_command_def)
  have h8: "path_exists (files ex_run_world) [''in'', ''audio'', ''audio_0.webm'']"
    by (simp add: path_exists_def ex_run_world_def ex_files_def ex_dirs_def ex_temp_dir_def)
  show ?thesis
    using run_ffmpeg_failures [where proc = failing_ffmpeg and command = "[''ffmpeg'', ''-version'']"
        and w = ex_run_world and rc = 1 and out = "[]" and err = "''Invalid data found''"
        and written = "[]" and t = ex_time
        and ?proc1.0 = no_ffmpeg and ?command1.0 = "[''ffmpeg'', ''-version'']"
        and ?w1.0 = ex_run_world and ?e1.0 = FileNotFoundError
        and v = "[''v'']" and a = None and s = None and target = "[''o'']"
        and self = ex_self and ?w3.0 = ex_world
        and video_chunks = "[(0, [''in'', ''video'', ''video_0.webm''])]"
        and audio_chunks = "[(0, [''in'', ''audio'', ''audio_0.webm''])]"
        and temp_names = ex_temp_names and temp_dir = ex_temp_dir
        and ?fs0.0 = "ex_files(ex_temp_dir \<mapsto> Dir)" and ?proc3.0 = ?proc
        and ?w4.0 = ex_run_world and audio_concat_path = "Some ?audio" and ?w5.0 = ex_run_world
        and saved_audio_path = None and ?w6.0 = ex_run_world and srt_path = None
        and ?e3.0 = FileNotFoundError
        and chunks = "[(0, [''in'', ''video'', ''video_0.webm''])]"
        and output_path = "[''tmp'', ''tmpa1b2'', ''video_concatenated.webm'']"
        and temp = "[''tmp'', ''tmpa1b2'', ''video_concatenated.temp.webm'']"
        and ?w2.0 = ex_run_world
        and ?fs1.0 = "(files ex_run_world)
            ([''tmp'', ''tmpa1b2'', ''video_concatenated.temp.webm''] \<mapsto> File [26, 69])"
        and ?proc2.0 = no_ffmpeg and ?e2.0 = FileNotFoundError
        and ?w7.0 = ex_run_world and audio = "[''in'', ''audio'', ''audio_0.webm'']"
        and wav = "[''o.wav'']" and ?proc7.0 = no_ffmpeg and ?e7.0 = FileNotFoundError]
      ex_raw_video ex_video_temp h1 h3 h4 h5 h6 h7 h8
    by (simp add: failing_ffmpeg_def no_ffmpeg_def ex_run_world_def)
qed

end
